theory Spec2Isabelle
  imports Complex_Main "HOL-Library.Word"
begin

section \<open>Shared vocabulary\<close>

text \<open>
  The access modes, the element types and the two kinds of execution device of the
  framework. An OpenCL device is identified by a number that stands for the identity of
  its \<^verbatim>\<open>OpenCLDevice::pointer\<close>.
\<close>

datatype accessType = ACCESS_READ | ACCESS_READ_WRITE

datatype DataType = TYPE_FLOAT | TYPE_UINT8 | TYPE_INT8 | TYPE_UINT16 | TYPE_INT16

datatype ExecutionDevice = Host | OpenCLDevice nat

text \<open>
  The code throws one exception class, told apart by its message. Going through a null
  pointer and writing beyond an array are not exceptions of the program; each is kept as
  a failure of its own so that no such step is silently given a value. \<open>NoMoreData\<close>
  is the signal of a frame sequence that has been read to its end.
\<close>

datatype failure = Exception string | NullPointerDereference | OutOfBounds | NoMoreData

datatype 'a pointer = NULL | Ptr 'a

text \<open>The names the specification gives to the failures of the data object.\<close>

definition ConcurrentAccessViolation :: failure where
  "ConcurrentAccessViolation =
     Exception ''Trying to get write access to an object that is already being accessed''"

definition CoherenceViolation :: failure where
  "CoherenceViolation =
     Exception ''Data was not updated because no data was marked as up to date''"

definition AlreadyInitialized :: failure where
  "AlreadyInitialized =
     Exception ''Can not use createImage on an object that is already initialized.''"

section \<open>Image2D: the per-location coherence table\<close>

subsection \<open>Data\<close>

text \<open>
  An allocation (a host array or a device image) is either still uninitialised or holds
  pixel data. Pointers of the object are indices into the list of allocations it has
  made, so two allocations are never confused and the number of allocations is the
  length of that list.
\<close>

datatype buffer = Uninitialized | Content "nat list"

record ImageData =
  mWidth :: "32 word"
  mHeight :: "32 word"
  mType :: DataType
  mComponents :: "32 word"
  mDimensions :: "8 word"

record Image2D = ImageData +
  mHostData :: "nat pointer"
  mHostHasData :: bool
  mHostDataIsUpToDate :: bool
  mHostDataIsBeingAccessed :: bool
  mCLImages :: "(nat \<times> nat pointer) list"
  mCLImagesIsUpToDate :: "(nat \<times> bool) list"
  mCLImagesAccess :: "(nat \<times> bool) list"
  allocated :: "buffer list"

text \<open>
  The three \<^verbatim>\<open>boost::unordered_map\<close>s are association lists; the order of a list
  stands for the iteration order of the table. \<open>assign\<close> is \<^verbatim>\<open>m[k] = v\<close>,
  \<open>subscript\<close> is reading \<^verbatim>\<open>m[k]\<close>, which inserts a default value for a missing key.
\<close>

fun assign :: "'k \<Rightarrow> 'v \<Rightarrow> ('k \<times> 'v) list \<Rightarrow> ('k \<times> 'v) list" where
  "assign k v [] = [(k, v)]"
| "assign k v ((k', v') # m) =
     (if k' = k then (k, v) # m else (k', v') # assign k v m)"

definition subscript :: "'v \<Rightarrow> 'k \<Rightarrow> ('k \<times> 'v) list \<Rightarrow> 'v \<times> ('k \<times> 'v) list" where
  "subscript dflt k m =
     (case map_of m k of Some v \<Rightarrow> (v, m) | None \<Rightarrow> (dflt, m @ [(k, dflt)]))"

text \<open>The loops over a table of flags.\<close>

fun anyFlag :: "(nat \<times> bool) list \<Rightarrow> bool" where
  "anyFlag [] = False"
| "anyFlag ((d, b) # m) = (if b then True else anyFlag m)"

fun anyFlagCleared :: "(nat \<times> bool) list \<Rightarrow> bool" where
  "anyFlagCleared [] = False"
| "anyFlagCleared ((d, b) # m) = (if b = False then True else anyFlagCleared m)"

fun firstUpToDate :: "(nat \<times> bool) list \<Rightarrow> nat option" where
  "firstUpToDate [] = None"
| "firstUpToDate ((d, b) # m) = (if b = True then Some d else firstUpToDate m)"

fun clearFlags :: "(nat \<times> bool) list \<Rightarrow> (nat \<times> bool) list" where
  "clearFlags [] = []"
| "clearFlags ((d, b) # m) = (d, False) # clearFlags m"

subsection \<open>Operations\<close>

definition isDataModified :: "Image2D \<Rightarrow> bool" where
  "isDataModified s =
     (if \<not> mHostDataIsUpToDate s then True else anyFlagCleared (mCLImagesIsUpToDate s))"

definition isAnyDataBeingAccessed :: "Image2D \<Rightarrow> bool" where
  "isAnyDataBeingAccessed s =
     (if mHostDataIsBeingAccessed s then True else anyFlag (mCLImagesAccess s))"

definition isInitialized :: "Image2D \<Rightarrow> bool" where
  "isInitialized s = (length (mCLImages s) > 0 \<or> mHostHasData s)"

text \<open>
  The constructor sets five members and default-constructs the tables. Width, height,
  type and component count are left as they are found in the storage, which the
  argument stands for.
\<close>

definition Image2D_ctor :: "ImageData \<Rightarrow> Image2D" where
  "Image2D_ctor raw =
     \<lparr> mWidth = mWidth raw, mHeight = mHeight raw, mType = mType raw,
       mComponents = mComponents raw, mDimensions = 2,
       mHostData = NULL, mHostHasData = False, mHostDataIsUpToDate = False,
       mHostDataIsBeingAccessed = False,
       mCLImages = [], mCLImagesIsUpToDate = [], mCLImagesAccess = [],
       allocated = [] \<rparr>"

text \<open>\<^verbatim>\<open>new\<close>: a fresh allocation, and the pointer to it.\<close>

definition new :: "buffer \<Rightarrow> Image2D \<Rightarrow> nat pointer \<times> Image2D" where
  "new b s = (Ptr (length (allocated s)), s\<lparr>allocated := allocated s @ [b]\<rparr>)"

text \<open>
  A transfer dereferences \<^verbatim>\<open>mCLImages[device]\<close> (inserting a null entry when the
  device has none) and copies between that image and the host array. A null image
  pointer or a null host array is a failure, and so is a pointer that is not one of the
  allocations.
\<close>

definition transferCLImageFromHost :: "nat \<Rightarrow> Image2D \<Rightarrow> (failure + unit) \<times> Image2D" where
  "transferCLImageFromHost device s =
     (case subscript NULL device (mCLImages s) of (img, m) \<Rightarrow>
        let s1 = s\<lparr>mCLImages := m\<rparr> in
        (case img of
           NULL \<Rightarrow> (Inl NullPointerDereference, s1)
         | Ptr i \<Rightarrow>
             (case mHostData s1 of
                NULL \<Rightarrow> (Inl NullPointerDereference, s1)
              | Ptr h \<Rightarrow>
                  if i < length (allocated s1) \<and> h < length (allocated s1)
                  then (Inr (), s1\<lparr>allocated := (allocated s1)[i := allocated s1 ! h]\<rparr>)
                  else (Inl OutOfBounds, s1))))"

definition transferCLImageToHost :: "nat \<Rightarrow> Image2D \<Rightarrow> (failure + unit) \<times> Image2D" where
  "transferCLImageToHost device s =
     (case subscript NULL device (mCLImages s) of (img, m) \<Rightarrow>
        let s1 = s\<lparr>mCLImages := m\<rparr> in
        (case img of
           NULL \<Rightarrow> (Inl NullPointerDereference, s1)
         | Ptr i \<Rightarrow>
             (case mHostData s1 of
                NULL \<Rightarrow> (Inl NullPointerDereference, s1)
              | Ptr h \<Rightarrow>
                  if i < length (allocated s1) \<and> h < length (allocated s1)
                  then (Inr (), s1\<lparr>allocated := (allocated s1)[h := allocated s1 ! i]\<rparr>)
                  else (Inl OutOfBounds, s1))))"

definition updateOpenCLImageData :: "nat \<Rightarrow> Image2D \<Rightarrow> (failure + unit) \<times> Image2D" where
  "updateOpenCLImageData device s =
     (if map_of (mCLImagesIsUpToDate s) device = Some True then (Inr (), s)
      else
        let s1 = (if map_of (mCLImagesIsUpToDate s) device = None
                  then (case new Uninitialized s of (newImage, s') \<Rightarrow>
                          s'\<lparr>mCLImages := assign device newImage (mCLImages s'),
                             mCLImagesIsUpToDate := assign device True (mCLImagesIsUpToDate s'),
                             mCLImagesAccess := assign device True (mCLImagesAccess s')\<rparr>)
                  else s)
        in
        if mHostDataIsUpToDate s1 then transferCLImageFromHost device s1
        else
          (case firstUpToDate (mCLImagesIsUpToDate s1) of
             Some src \<Rightarrow>
               (case transferCLImageToHost src s1 of
                  (Inl e, s2) \<Rightarrow> (Inl e, s2)
                | (Inr _, s2) \<Rightarrow>
                    (case transferCLImageFromHost device s2 of
                       (Inl e, s3) \<Rightarrow> (Inl e, s3)
                     | (Inr _, s3) \<Rightarrow> (Inr (), s3\<lparr>mHostDataIsUpToDate := True\<rparr>)))
           | None \<Rightarrow> (Inl CoherenceViolation, s1)))"

definition updateHostData :: "Image2D \<Rightarrow> (failure + unit) \<times> Image2D" where
  "updateHostData s =
     (if mHostDataIsUpToDate s then (Inr (), s)
      else
        let s1 = (if \<not> mHostHasData s
                  then (case new Uninitialized s of (p, s') \<Rightarrow> s'\<lparr>mHostData := p\<rparr>)
                  else s)
        in
        if length (mCLImages s1) > 0 then
          (case firstUpToDate (mCLImagesIsUpToDate s1) of
             Some src \<Rightarrow> transferCLImageToHost src s1
           | None \<Rightarrow> (Inl CoherenceViolation, s1))
        else (Inr (), s1))"

definition setAllDataToOutOfDate :: "Image2D \<Rightarrow> Image2D" where
  "setAllDataToOutOfDate s =
     s\<lparr>mHostDataIsUpToDate := False,
       mCLImagesIsUpToDate := clearFlags (mCLImagesIsUpToDate s)\<rparr>"

text \<open>
  An accessor is what its constructor is given: the data pointer and the address of the
  flag it will clear, which for a device accessor is the table entry of that device.
\<close>

datatype OpenCLImageAccess2D = OpenCLImageAccess2D "nat pointer" nat

datatype ImageAccess2D = ImageAccess2D "nat pointer"

definition getOpenCLImageAccess ::
  "accessType \<Rightarrow> nat \<Rightarrow> Image2D \<Rightarrow> (failure + OpenCLImageAccess2D) \<times> Image2D" where
  "getOpenCLImageAccess type device s =
     (if type = ACCESS_READ_WRITE \<and> isAnyDataBeingAccessed s
      then (Inl ConcurrentAccessViolation, s)
      else
        let s1 = (if type = ACCESS_READ_WRITE
                  then (let s' = setAllDataToOutOfDate s in
                        s'\<lparr>mCLImagesIsUpToDate := assign device True (mCLImagesIsUpToDate s')\<rparr>)
                  else s);
            s2 = s1\<lparr>mCLImagesAccess := assign device True (mCLImagesAccess s1)\<rparr>
        in
        (case updateOpenCLImageData device s2 of
           (Inl e, s3) \<Rightarrow> (Inl e, s3)
         | (Inr _, s3) \<Rightarrow>
             (case subscript NULL device (mCLImages s3) of (img, m) \<Rightarrow>
                (Inr (OpenCLImageAccess2D img device), s3\<lparr>mCLImages := m\<rparr>))))"

definition getImageAccess ::
  "accessType \<Rightarrow> Image2D \<Rightarrow> (failure + ImageAccess2D) \<times> Image2D" where
  "getImageAccess type s =
     (if type = ACCESS_READ_WRITE \<and> isAnyDataBeingAccessed s
      then (Inl ConcurrentAccessViolation, s)
      else
        let s1 = (if type = ACCESS_READ_WRITE
                  then (setAllDataToOutOfDate s)
                         \<lparr>mHostDataIsUpToDate := True, mHostDataIsBeingAccessed := True\<rparr>
                  else s)
        in
        (case updateHostData s1 of
           (Inl e, s2) \<Rightarrow> (Inl e, s2)
         | (Inr _, s2) \<Rightarrow> (Inr (ImageAccess2D (mHostData s2)), s2)))"

text \<open>
  \<^verbatim>\<open>createImage\<close> without data. Every case of the switch on the element type
  allocates the host array, so the five cases are one here.
\<close>

definition createImage ::
  "32 word \<Rightarrow> 32 word \<Rightarrow> DataType \<Rightarrow> 32 word \<Rightarrow> ExecutionDevice \<Rightarrow> Image2D
     \<Rightarrow> (failure + unit) \<times> Image2D" where
  "createImage width height type nrOfComponents device s =
     (if isInitialized s then (Inl AlreadyInitialized, s)
      else
        let s1 = s\<lparr>mWidth := width, mHeight := height, mType := type,
                   mComponents := nrOfComponents\<rparr>
        in
        (case device of
           Host \<Rightarrow>
             (case new Uninitialized (s1\<lparr>mHostHasData := True\<rparr>) of (p, s2) \<Rightarrow>
                (Inr (), s2\<lparr>mHostData := p\<rparr>))
         | OpenCLDevice clDevice \<Rightarrow>
             (case new Uninitialized s1 of (clImage, s2) \<Rightarrow>
                (Inr (), s2\<lparr>mCLImages := assign clDevice clImage (mCLImages s2),
                            mCLImagesIsUpToDate := assign clDevice True (mCLImagesIsUpToDate s2),
                            mCLImagesAccess := assign clDevice False (mCLImagesAccess s2)\<rparr>))))"

text \<open>
  \<^verbatim>\<open>createImage\<close> with data. On the host the data is copied into the array
  \<^verbatim>\<open>mHostData\<close> points to, which this function does not allocate.
\<close>

definition createImageWithData ::
  "32 word \<Rightarrow> 32 word \<Rightarrow> DataType \<Rightarrow> 32 word \<Rightarrow> ExecutionDevice \<Rightarrow> nat list \<Rightarrow> Image2D
     \<Rightarrow> (failure + unit) \<times> Image2D" where
  "createImageWithData width height type nrOfComponents device data s =
     (if isInitialized s then (Inl AlreadyInitialized, s)
      else
        let s1 = s\<lparr>mWidth := width, mHeight := height, mType := type,
                   mComponents := nrOfComponents\<rparr>
        in
        (case device of
           Host \<Rightarrow>
             (case mHostData s1 of
                NULL \<Rightarrow> (Inl NullPointerDereference, s1)
              | Ptr h \<Rightarrow>
                  if h < length (allocated s1)
                  then (Inr (), s1\<lparr>allocated := (allocated s1)[h := Content data],
                                   mHostHasData := True, mHostDataIsUpToDate := True\<rparr>)
                  else (Inl OutOfBounds, s1))
         | OpenCLDevice clDevice \<Rightarrow>
             (case new (Content data) s1 of (clImage, s2) \<Rightarrow>
                (Inr (), s2\<lparr>mCLImages := assign clDevice clImage (mCLImages s2),
                            mCLImagesIsUpToDate := assign clDevice True (mCLImagesIsUpToDate s2),
                            mCLImagesAccess := assign clDevice False (mCLImagesAccess s2)\<rparr>))))"

subsection \<open>The contract of the specification\<close>

text \<open>
  Modelled from the spec: the destructors of the two accessor classes, which are not
  part of the sources at hand. Releasing an accessor clears the locked flag it was given
  and leaves the up-to-date flags as last set.
\<close>

definition releaseImageAccess :: "Image2D \<Rightarrow> Image2D" where
  "releaseImageAccess s = s\<lparr>mHostDataIsBeingAccessed := False\<rparr>"

definition releaseOpenCLImageAccess :: "nat \<Rightarrow> Image2D \<Rightarrow> Image2D" where
  "releaseOpenCLImageAccess device s =
     s\<lparr>mCLImagesAccess := assign device False (mCLImagesAccess s)\<rparr>"

text \<open>
  \<open>acquireAccess\<close> of the specification is one of the two access methods, chosen by the
  target location.
\<close>

datatype accessor = HostAccess ImageAccess2D | DeviceAccess OpenCLImageAccess2D

definition acquireAccess ::
  "ExecutionDevice \<Rightarrow> accessType \<Rightarrow> Image2D \<Rightarrow> (failure + accessor) \<times> Image2D" where
  "acquireAccess location type s =
     (case location of
        Host \<Rightarrow> (case getImageAccess type s of (r, s') \<Rightarrow> (map_sum id HostAccess r, s'))
      | OpenCLDevice d \<Rightarrow>
          (case getOpenCLImageAccess type d s of (r, s') \<Rightarrow> (map_sum id DeviceAccess r, s')))"

text \<open>The flags of a location, and whether any location is up to date.\<close>

definition upToDateAt :: "Image2D \<Rightarrow> ExecutionDevice \<Rightarrow> bool" where
  "upToDateAt s location =
     (case location of
        Host \<Rightarrow> mHostDataIsUpToDate s
      | OpenCLDevice d \<Rightarrow> (d, True) \<in> set (mCLImagesIsUpToDate s))"

definition lockedAt :: "Image2D \<Rightarrow> ExecutionDevice \<Rightarrow> bool" where
  "lockedAt s location =
     (case location of
        Host \<Rightarrow> mHostDataIsBeingAccessed s
      | OpenCLDevice d \<Rightarrow> (d, True) \<in> set (mCLImagesAccess s))"

definition anyUpToDate :: "Image2D \<Rightarrow> bool" where
  "anyUpToDate s = (mHostDataIsUpToDate s \<or> anyFlag (mCLImagesIsUpToDate s))"

text \<open>A call of the access protocol, and the state it leaves, whether it fails or not.\<close>

datatype call =
    Acquire ExecutionDevice accessType
  | ReleaseHost
  | ReleaseDevice nat

fun perform :: "call \<Rightarrow> Image2D \<Rightarrow> Image2D" where
  "perform (Acquire location type) s = snd (acquireAccess location type s)"
| "perform ReleaseHost s = releaseImageAccess s"
| "perform (ReleaseDevice d) s = releaseOpenCLImageAccess d s"

fun performAll :: "call list \<Rightarrow> Image2D \<Rightarrow> Image2D" where
  "performAll [] s = s"
| "performAll (c # cs) s = performAll cs (perform c s)"

subsection \<open>Concrete objects\<close>

text \<open>
  A newly constructed object, the same object after \<^verbatim>\<open>createImage\<close> on the host
  without data, and after \<^verbatim>\<open>createImage\<close> with data on the OpenCL device 0.
\<close>

definition freshImage :: Image2D where
  "freshImage =
     Image2D_ctor \<lparr>mWidth = 0, mHeight = 0, mType = TYPE_UINT8, mComponents = 0, mDimensions = 0\<rparr>"

definition hostImage :: Image2D where
  "hostImage = snd (createImage 2 2 TYPE_FLOAT 1 Host freshImage)"

definition deviceImage :: Image2D where
  "deviceImage =
     snd (createImageWithData 2 2 TYPE_FLOAT 1 (OpenCLDevice 0) [1, 2, 3, 4] freshImage)"

text \<open>
  The device object while a read accessor of device 0 is alive; the device object after a
  read at the host; and the device object after device 1 has read it and device 0 has
  then been given read-write access and released it, which leaves device 1 stale.
\<close>

definition lockedImage :: Image2D where
  "lockedImage = perform (Acquire (OpenCLDevice 0) ACCESS_READ) deviceImage"

definition hostReadImage :: Image2D where
  "hostReadImage = perform (Acquire Host ACCESS_READ) deviceImage"

definition staleDeviceImage :: Image2D where
  "staleDeviceImage =
     performAll [Acquire Host ACCESS_READ,
                 Acquire (OpenCLDevice 1) ACCESS_READ, ReleaseDevice 1,
                 Acquire (OpenCLDevice 0) ACCESS_READ_WRITE, ReleaseDevice 0] deviceImage"

definition staleDeviceReadImage :: Image2D where
  "staleDeviceReadImage = perform (Acquire (OpenCLDevice 1) ACCESS_READ) staleDeviceImage"

text \<open>An object whose only entry, for device 0, is marked stale, with a stale host.\<close>

definition incoherentImage :: Image2D where
  "incoherentImage = deviceImage\<lparr>mCLImagesIsUpToDate := [(0, False)]\<rparr>"

section \<open>GaussianSmoothingFilter: a process stage\<close>

subsection \<open>Numbers\<close>

text \<open>
  A \<^verbatim>\<open>float\<close> or \<^verbatim>\<open>double\<close> is a finite value, an infinity or a NaN; a pixel of
  an integer type is the finite value of that integer. Comparison with zero is exact and
  is modelled; a comparison with a NaN is false. The arithmetic of the platform
  (rounding, the library's \<^verbatim>\<open>exp\<close>, addition on \<^verbatim>\<open>double\<close>, the conversion of
  a \<^verbatim>\<open>double\<close> to an element type) is not fixed by the sources: it is a parameter,
  together with the root directory of the kernel sources and the default device of the
  device manager.
\<close>

datatype cfloat = Finite real | PlusInfinity | MinusInfinity | NaN

fun lessEqZero :: "cfloat \<Rightarrow> bool" where
  "lessEqZero (Finite r) = (r \<le> 0)"
| "lessEqZero MinusInfinity = True"
| "lessEqZero PlusInfinity = False"
| "lessEqZero NaN = False"

record platform =
  FAST_ROOT_DIR :: string
  defaultComputationDevice :: ExecutionDevice
  float_of_int :: "int \<Rightarrow> cfloat"
  float_neg :: "cfloat \<Rightarrow> cfloat"
  float_add :: "cfloat \<Rightarrow> cfloat \<Rightarrow> cfloat"
  float_mul :: "cfloat \<Rightarrow> cfloat \<Rightarrow> cfloat"
  float_div :: "cfloat \<Rightarrow> cfloat \<Rightarrow> cfloat"
  float_exp :: "cfloat \<Rightarrow> cfloat"
  double_add :: "cfloat \<Rightarrow> cfloat \<Rightarrow> cfloat"
  cast_from_double :: "DataType \<Rightarrow> cfloat \<Rightarrow> cfloat"

text \<open>Integer division of C truncates towards zero.\<close>

definition c_div :: "int \<Rightarrow> int \<Rightarrow> int" where
  "c_div a b = sgn a * sgn b * (\<bar>a\<bar> div \<bar>b\<bar>)"

text \<open>\<^verbatim>\<open>unsigned char halfSize = (mMaskSize-1)/2\<close>, computed on \<^verbatim>\<open>int\<close>.\<close>

definition halfSizeOf :: "8 word \<Rightarrow> 8 word" where
  "halfSizeOf maskSize = word_of_int (c_div (uint maskSize - 1) 2)"

subsection \<open>Data\<close>

text \<open>
  What the stage reads of an image: its header through the getters, and through a read
  accessor at the host the array of its pixels, in which a cell never written is
  \<open>None\<close>. The input is a static image or a dynamic one, of which the frames still to
  come are listed.
\<close>

record Image = ImageData +
  mDepth :: "32 word"
  pixels :: "cfloat option list"

datatype input = StaticInput Image | DynamicInput "Image list"

fun isDynamicData :: "input \<Rightarrow> bool" where
  "isDynamicData (StaticInput _) = False"
| "isDynamicData (DynamicInput _) = True"

text \<open>
  The classes the stage calls into (the image classes, the process-object base class,
  the OpenCL device) are not part of the sources at hand. A call into them is recorded as
  an event, in the order of the calls, and is taken to return normally. The allocation
  of the mask array is recorded in the same way.
\<close>

datatype image = InputImage Image | OutputImage nat

datatype event =
    AddParent
  | Retain ExecutionDevice
  | Release ExecutionDevice
  | SetParent nat
  | GetNextFrame
  | AddFrame nat nat
  | Create2DImage nat "32 word" "32 word" DataType "32 word" ExecutionDevice
  | Create3DImage nat "32 word" "32 word" "32 word" DataType "32 word" ExecutionDevice
  | NewFloatArray nat
  | CreateBuffer nat nat
  | CreateProgramFromSource nat string string
  | GetImageAccess image accessType
  | GetOpenCLImageAccess2D image accessType nat
  | GetOpenCLImageAccess3D image accessType nat
  | SetArg nat
  | EnqueueNDRangeKernel nat "32 word list"
  | UpdateModifiedTimestamp nat
  | Finish nat

record Kernel =
  programSource :: string
  buildOptions :: string
  kernelName :: string

text \<open>
  The members of the stage, and the parts of its surroundings its methods act on: the
  number of strong references to each output object it has created (an object is
  identified by its index; a weak pointer resolves while the number is positive), the
  output objects that have been created as images, the host array of each output object
  that has one, and the events so far. \<open>mOutput\<close> is the weak pointer, \<open>mTempOutput\<close>
  a strong one.
\<close>

record GaussianSmoothingFilter =
  mInput :: "input pointer"
  mTempOutput :: "nat pointer"
  mOutput :: "nat pointer"
  mDevice :: ExecutionDevice
  mStdDev :: cfloat
  mMaskSize :: "8 word"
  mIsModified :: bool
  mRecreateMask :: bool
  mMask :: "cfloat option list pointer"
  mCLMask :: "cfloat option list pointer"
  mKernel :: "Kernel pointer"
  mDimensionCLCodeCompiledFor :: "8 word"
  mTypeCLCodeCompiledFor :: DataType
  strongRefs :: "nat list"
  initialized :: "nat list"
  outputPixels :: "(nat \<times> cfloat option list) list"
  trace :: "event list"

definition emit :: "event list \<Rightarrow> GaussianSmoothingFilter \<Rightarrow> GaussianSmoothingFilter" where
  "emit es s = s\<lparr>trace := trace s @ es\<rparr>"

text \<open>
  Modelled from the spec: the smart pointers, whose source is not at hand. A weak
  reference resolves to nothing once nobody retains the object; resolving it otherwise
  gives a further strong reference; a holder that lets go of its strong pointer lowers
  the count; a new object starts with the one reference of its creator.
\<close>

definition lock :: "nat pointer \<Rightarrow> GaussianSmoothingFilter \<Rightarrow> nat pointer" where
  "lock weak s =
     (case weak of
        NULL \<Rightarrow> NULL
      | Ptr p \<Rightarrow> (if p < length (strongRefs s) \<and> strongRefs s ! p > 0 then Ptr p else NULL))"

definition retainRef :: "nat pointer \<Rightarrow> GaussianSmoothingFilter \<Rightarrow> GaussianSmoothingFilter" where
  "retainRef ptr s =
     (case ptr of
        NULL \<Rightarrow> s
      | Ptr p \<Rightarrow> s\<lparr>strongRefs := (strongRefs s)[p := strongRefs s ! p + 1]\<rparr>)"

definition releaseRef :: "nat pointer \<Rightarrow> GaussianSmoothingFilter \<Rightarrow> GaussianSmoothingFilter" where
  "releaseRef ptr s =
     (case ptr of
        NULL \<Rightarrow> s
      | Ptr p \<Rightarrow> s\<lparr>strongRefs := (strongRefs s)[p := strongRefs s ! p - 1]\<rparr>)"

definition newObject :: "GaussianSmoothingFilter \<Rightarrow> nat \<times> GaussianSmoothingFilter" where
  "newObject s = (length (strongRefs s), s\<lparr>strongRefs := strongRefs s @ [1]\<rparr>)"

text \<open>
  Modelled from the spec: \<^verbatim>\<open>DynamicImage::getNextFrame\<close>, whose source is not at
  hand. Consumers pull the next frame in order; past the last frame the result is the
  signal that there is no more data.
\<close>

definition getNextFrame :: "Image list \<Rightarrow> failure + (Image \<times> Image list)" where
  "getNextFrame frames =
     (case frames of [] \<Rightarrow> Inl NoMoreData | frame # rest \<Rightarrow> Inr (frame, rest))"

subsection \<open>Construction and setters\<close>

text \<open>
  The constructor sets the device, the two parameters, the two flags and the compiled
  dimension; the pointers are default-constructed. \<^verbatim>\<open>mMask\<close> and
  \<^verbatim>\<open>mTypeCLCodeCompiledFor\<close> are left as found in the storage, which the second
  argument stands for.
\<close>

definition GaussianSmoothingFilter_ctor ::
  "platform \<Rightarrow> GaussianSmoothingFilter \<Rightarrow> GaussianSmoothingFilter" where
  "GaussianSmoothingFilter_ctor pf raw =
     \<lparr> mInput = NULL, mTempOutput = NULL, mOutput = NULL,
       mDevice = defaultComputationDevice pf,
       mStdDev = Finite 1, mMaskSize = 3,
       mIsModified = True, mRecreateMask = True,
       mMask = mMask raw, mCLMask = NULL, mKernel = NULL,
       mDimensionCLCodeCompiledFor = 0,
       mTypeCLCodeCompiledFor = mTypeCLCodeCompiledFor raw,
       strongRefs = [], initialized = [], outputPixels = [], trace = [] \<rparr>"

definition setInput ::
  "input pointer \<Rightarrow> GaussianSmoothingFilter \<Rightarrow> (failure + unit) \<times> GaussianSmoothingFilter" where
  "setInput inputPtr s =
     (let s1 = emit [AddParent] (s\<lparr>mInput := inputPtr, mIsModified := True\<rparr>) in
      case inputPtr of
        NULL \<Rightarrow> (Inl NullPointerDereference, s1)
      | Ptr inp \<Rightarrow>
          (case newObject (releaseRef (mTempOutput s1) s1) of (fresh, s2) \<Rightarrow>
             let s3 = (if isDynamicData inp then s2 else emit [Retain (mDevice s2)] s2)
             in (Inr (), s3\<lparr>mTempOutput := Ptr fresh, mOutput := Ptr fresh\<rparr>)))"

definition setDevice :: "ExecutionDevice \<Rightarrow> GaussianSmoothingFilter \<Rightarrow> GaussianSmoothingFilter" where
  "setDevice device s = s\<lparr>mDevice := device, mIsModified := True, mRecreateMask := True\<rparr>"

definition MaskSizeNotOdd :: failure where
  "MaskSizeNotOdd = Exception ''Mask size of GaussianSmoothingFilter must be odd.''"

definition StandardDeviationNotPositive :: failure where
  "StandardDeviationNotPositive =
     Exception ''Standard deviation of GaussianSmoothingFilter can't be less than 0.''"

definition setMaskSize ::
  "8 word \<Rightarrow> GaussianSmoothingFilter \<Rightarrow> (failure + unit) \<times> GaussianSmoothingFilter" where
  "setMaskSize maskSize s =
     (if uint maskSize mod 2 \<noteq> 1 then (Inl MaskSizeNotOdd, s)
      else (Inr (), s\<lparr>mMaskSize := maskSize, mIsModified := True, mRecreateMask := True\<rparr>))"

definition setStandardDeviation ::
  "cfloat \<Rightarrow> GaussianSmoothingFilter \<Rightarrow> (failure + unit) \<times> GaussianSmoothingFilter" where
  "setStandardDeviation stdDev s =
     (if lessEqZero stdDev then (Inl StandardDeviationNotPositive, s)
      else (Inr (), s\<lparr>mStdDev := stdDev, mIsModified := True, mRecreateMask := True\<rparr>))"

text \<open>The two failures of the setters are what the specification calls InvalidParameter.\<close>

definition InvalidParameter :: "failure \<Rightarrow> bool" where
  "InvalidParameter e = (e \<in> set [MaskSizeNotOdd, StandardDeviationNotPositive])"

subsection \<open>The output\<close>

definition NotWired :: failure where
  "NotWired = Exception ''Must call setInput before getOutput in GaussianSmoothingFilter''"

text \<open>
  \<^verbatim>\<open>getOutput\<close>. The swap moves the strong reference of \<^verbatim>\<open>mTempOutput\<close> to the
  caller, so the count of the object does not change; \<^verbatim>\<open>mOutput.lock()\<close> hands the
  caller a further strong reference, or a null pointer.
\<close>

definition getOutput ::
  "GaussianSmoothingFilter \<Rightarrow> (failure + nat pointer) \<times> GaussianSmoothingFilter" where
  "getOutput s =
     (case mInput s of
        NULL \<Rightarrow> (Inl NotWired, s)
      | Ptr _ \<Rightarrow>
          (case mTempOutput s of
             Ptr p \<Rightarrow> (Inr (Ptr p), (emit [SetParent p] s)\<lparr>mTempOutput := NULL\<rparr>)
           | NULL \<Rightarrow> (Inr (lock (mOutput s) s), retainRef (lock (mOutput s) s) s)))"

subsection \<open>The mask\<close>

definition gaussian :: "platform \<Rightarrow> cfloat \<Rightarrow> int \<Rightarrow> cfloat" where
  "gaussian pf stdDev squaredDistance =
     float_exp pf
       (float_div pf (float_neg pf (float_of_int pf squaredDistance))
          (float_mul pf (float_mul pf (Finite 2) stdDev) stdDev))"

text \<open>
  The cells the nested loops visit, in the order of the loops: the index written and the
  squared distance from the centre.
\<close>

definition cells2D :: "int \<Rightarrow> int \<Rightarrow> (int \<times> int) list" where
  "cells2D halfSize maskSize =
     [(x + halfSize + (y + halfSize) * maskSize, x * x + y * y).
        x \<leftarrow> [- halfSize .. halfSize], y \<leftarrow> [- halfSize .. halfSize]]"

definition cells3D :: "int \<Rightarrow> int \<Rightarrow> (int \<times> int) list" where
  "cells3D halfSize maskSize =
     [(x + halfSize + (y + halfSize) * maskSize + (z + halfSize) * maskSize * maskSize,
       x * x + y * y + z * z).
        x \<leftarrow> [- halfSize .. halfSize], y \<leftarrow> [- halfSize .. halfSize],
        z \<leftarrow> [- halfSize .. halfSize]]"

text \<open>
  The body of the loops: store the value, add it to the sum. A cell of the array that
  has not been written is \<open>None\<close>.
\<close>

fun fillMask ::
  "platform \<Rightarrow> cfloat \<Rightarrow> (int \<times> int) list \<Rightarrow> cfloat option list \<Rightarrow> cfloat
     \<Rightarrow> failure + (cfloat option list \<times> cfloat)" where
  "fillMask pf stdDev [] array runningSum = Inr (array, runningSum)"
| "fillMask pf stdDev ((i, squaredDistance) # cells) array runningSum =
     (let value = gaussian pf stdDev squaredDistance in
      if 0 \<le> i \<and> nat i < length array
      then fillMask pf stdDev cells (array[nat i := Some value]) (float_add pf runningSum value)
      else Inl OutOfBounds)"

definition computeMask ::
  "platform \<Rightarrow> cfloat \<Rightarrow> (int \<times> int) list \<Rightarrow> nat \<Rightarrow> failure + cfloat option list" where
  "computeMask pf stdDev cells count =
     (case fillMask pf stdDev cells (replicate count None) (Finite 0) of
        Inl e \<Rightarrow> Inl e
      | Inr (array, runningSum) \<Rightarrow> Inr (map (map_option (\<lambda>v. float_div pf v runningSum)) array))"

definition createMask ::
  "platform \<Rightarrow> Image \<Rightarrow> GaussianSmoothingFilter
     \<Rightarrow> (failure + unit) \<times> GaussianSmoothingFilter" where
  "createMask pf inputImage s =
     (if \<not> mRecreateMask s then (Inr (), s)
      else
        let maskSize = uint (mMaskSize s);
            halfSize = uint (halfSizeOf (mMaskSize s));
            cells = (if mDimensions inputImage = 2
                     then Some (cells2D halfSize maskSize, nat (maskSize * maskSize))
                     else if mDimensions inputImage = 3
                     then Some (cells3D halfSize maskSize, nat (maskSize * maskSize * maskSize))
                     else None);
            computed = (case cells of
                          None \<Rightarrow> (Inr (), s)
                        | Some (cs, count) \<Rightarrow>
                            (case computeMask pf (mStdDev s) cs count of
                               Inl e \<Rightarrow> (Inl e, emit [NewFloatArray count] s)
                             | Inr array \<Rightarrow>
                                 (Inr (), (emit [NewFloatArray count] s)\<lparr>mMask := Ptr array\<rparr>)))
        in
        (case computed of
           (Inl e, s1) \<Rightarrow> (Inl e, s1)
         | (Inr _, s1) \<Rightarrow>
             (case mDevice s1 of
                Host \<Rightarrow> (Inr (), s1\<lparr>mRecreateMask := False\<rparr>)
              | OpenCLDevice device \<Rightarrow>
                  let bufferSize = (if mDimensions inputImage = 2 then nat (maskSize * maskSize)
                                    else nat (maskSize * maskSize * maskSize))
                  in
                  (case mMask s1 of
                     NULL \<Rightarrow> (Inl NullPointerDereference, s1)
                   | Ptr array \<Rightarrow>
                       (Inr (), (emit [CreateBuffer device bufferSize] s1)
                                  \<lparr>mCLMask := Ptr (take bufferSize array),
                                   mRecreateMask := False\<rparr>)))))"

subsection \<open>The kernel\<close>

definition recompileOpenCLCode ::
  "platform \<Rightarrow> nat \<Rightarrow> Image \<Rightarrow> GaussianSmoothingFilter \<Rightarrow> GaussianSmoothingFilter" where
  "recompileOpenCLCode pf device inputImage s =
     (if mDimensions inputImage = mDimensionCLCodeCompiledFor s
         \<and> mType inputImage = mTypeCLCodeCompiledFor s
      then s
      else
        let buildOptions = (if mType inputImage = TYPE_FLOAT then ''-DTYPE_FLOAT''
                            else if mType inputImage = TYPE_INT8 \<or> mType inputImage = TYPE_INT16
                            then ''-DTYPE_INT''
                            else ''-DTYPE_UINT'');
            filename = (if mDimensions inputImage = 2
                        then ''Algorithms/GaussianSmoothingFilter2D.cl''
                        else ''Algorithms/GaussianSmoothingFilter3D.cl'')
        in
        (emit [CreateProgramFromSource device (FAST_ROOT_DIR pf @ filename) buildOptions] s)
          \<lparr>mKernel := Ptr \<lparr>programSource = FAST_ROOT_DIR pf @ filename,
                            buildOptions = buildOptions,
                            kernelName = ''gaussianSmoothing''\<rparr>,
           mDimensionCLCodeCompiledFor := mDimensions inputImage,
           mTypeCLCodeCompiledFor := mType inputImage\<rparr>)"

subsection \<open>Execution\<close>

definition MoreThanOneComponent :: failure where
  "MoreThanOneComponent =
     Exception ''Running the gaussian smoothing filter on an image with more than 1 component on the host is currently not supported.''"

definition NoInputSupplied :: failure where
  "NoInputSupplied = Exception ''No input supplied to GaussianSmoothingFilter''"

text \<open>
  \<^verbatim>\<open>executeAlgorithmOnHost\<close>. The loops run over \<^verbatim>\<open>unsigned int\<close>: the bounds
  \<^verbatim>\<open>height-halfSize\<close> and \<^verbatim>\<open>width-halfSize\<close> wrap around when the image is smaller
  than the half size, and so do the indices into the input. The pixels the loops visit
  are listed in the order of the loops, each with the index written and its taps: the
  index into the mask and the index into the input, in the order of the inner loops.
\<close>

definition range32 :: "32 word \<Rightarrow> 32 word \<Rightarrow> 32 word list" where
  "range32 lower upper = map of_nat [unat lower ..< unat upper]"

definition taps2D :: "int \<Rightarrow> int \<Rightarrow> 32 word \<Rightarrow> 32 word \<Rightarrow> 32 word \<Rightarrow> (int \<times> 32 word) list" where
  "taps2D halfSize maskSize width x y =
     [(a + halfSize + (b + halfSize) * maskSize,
       x + word_of_int a + (y + word_of_int b) * width).
        b \<leftarrow> [- halfSize .. halfSize], a \<leftarrow> [- halfSize .. halfSize]]"

definition taps3D ::
  "int \<Rightarrow> int \<Rightarrow> 32 word \<Rightarrow> 32 word \<Rightarrow> 32 word \<Rightarrow> 32 word \<Rightarrow> 32 word
     \<Rightarrow> (int \<times> 32 word) list" where
  "taps3D halfSize maskSize width height x y z =
     [(a + halfSize + (b + halfSize) * maskSize + (c + halfSize) * maskSize * maskSize,
       x + word_of_int a + (y + word_of_int b) * width + (z + word_of_int c) * width * height).
        c \<leftarrow> [- halfSize .. halfSize], b \<leftarrow> [- halfSize .. halfSize],
        a \<leftarrow> [- halfSize .. halfSize]]"

definition pixels2D ::
  "int \<Rightarrow> int \<Rightarrow> 32 word \<Rightarrow> 32 word \<Rightarrow> (32 word \<times> (int \<times> 32 word) list) list" where
  "pixels2D halfSize maskSize width height =
     [(x + y * width, taps2D halfSize maskSize width x y).
        y \<leftarrow> range32 (word_of_int halfSize) (height - word_of_int halfSize),
        x \<leftarrow> range32 (word_of_int halfSize) (width - word_of_int halfSize)]"

definition pixels3D ::
  "int \<Rightarrow> int \<Rightarrow> 32 word \<Rightarrow> 32 word \<Rightarrow> 32 word
     \<Rightarrow> (32 word \<times> (int \<times> 32 word) list) list" where
  "pixels3D halfSize maskSize width height depth =
     [(x + y * width + z * width * height, taps3D halfSize maskSize width height x y z).
        z \<leftarrow> range32 (word_of_int halfSize) (depth - word_of_int halfSize),
        y \<leftarrow> range32 (word_of_int halfSize) (height - word_of_int halfSize),
        x \<leftarrow> range32 (word_of_int halfSize) (width - word_of_int halfSize)]"

text \<open>
  The inner loops: the sum, a \<^verbatim>\<open>double\<close>, of the products of mask entry and input
  pixel. Reading through a null mask pointer or beyond the mask or the input is a
  failure; a sum that takes in a cell never written is itself not a written value.
\<close>

fun weightedSum ::
  "platform \<Rightarrow> cfloat option list pointer \<Rightarrow> cfloat option list \<Rightarrow> (int \<times> 32 word) list
     \<Rightarrow> cfloat option \<Rightarrow> failure + cfloat option" where
  "weightedSum pf weights inputData [] runningSum = Inr runningSum"
| "weightedSum pf weights inputData ((i, j) # taps) runningSum =
     (case weights of
        NULL \<Rightarrow> Inl NullPointerDereference
      | Ptr w \<Rightarrow>
          if 0 \<le> i \<and> nat i < length w \<and> unat j < length inputData
          then weightedSum pf weights inputData taps
                 (case (runningSum, w ! nat i, inputData ! unat j) of
                    (Some r, Some m, Some v) \<Rightarrow> Some (double_add pf r (float_mul pf m v))
                  | _ \<Rightarrow> None)
          else Inl OutOfBounds)"

text \<open>
  The outer loops: each pixel visited is given its sum, converted to the element type.
  Writing through a null output pointer or beyond the output array is a failure.
\<close>

fun smoothPixels ::
  "platform \<Rightarrow> DataType \<Rightarrow> cfloat option list pointer \<Rightarrow> cfloat option list
     \<Rightarrow> (32 word \<times> (int \<times> 32 word) list) list \<Rightarrow> cfloat option list pointer
     \<Rightarrow> failure + cfloat option list pointer" where
  "smoothPixels pf type weights inputData [] outputData = Inr outputData"
| "smoothPixels pf type weights inputData ((k, taps) # rest) outputData =
     (case weightedSum pf weights inputData taps (Some (Finite 0)) of
        Inl e \<Rightarrow> Inl e
      | Inr pixelSum \<Rightarrow>
          (case outputData of
             NULL \<Rightarrow> Inl NullPointerDereference
           | Ptr array \<Rightarrow>
               if unat k < length array
               then smoothPixels pf type weights inputData rest
                      (Ptr (array[unat k := map_option (cast_from_double pf type) pixelSum]))
               else Inl OutOfBounds))"

text \<open>
  The function itself: the check of the component count, the read access to the input
  and the read-write access to the output, then the loops, for three dimensions or
  otherwise for two. The output accessor gives the host array of the output object, a
  null pointer if it has none.
\<close>

definition executeAlgorithmOnHost ::
  "platform \<Rightarrow> Image \<Rightarrow> nat \<Rightarrow> cfloat option list pointer \<Rightarrow> 8 word
     \<Rightarrow> GaussianSmoothingFilter \<Rightarrow> (failure + unit) \<times> GaussianSmoothingFilter" where
  "executeAlgorithmOnHost pf inputImage output weights maskSize s =
     (if mComponents inputImage \<noteq> 1 then (Inl MoreThanOneComponent, s)
      else
        let s1 = emit [GetImageAccess (InputImage inputImage) ACCESS_READ,
                       GetImageAccess (OutputImage output) ACCESS_READ_WRITE] s;
            outputData = (case map_of (outputPixels s1) output of
                            None \<Rightarrow> NULL
                          | Some array \<Rightarrow> Ptr array);
            halfSize = uint (halfSizeOf maskSize);
            visited = (if mDimensions inputImage = 3
                       then pixels3D halfSize (uint maskSize) (mWidth inputImage)
                              (mHeight inputImage) (mDepth inputImage)
                       else pixels2D halfSize (uint maskSize) (mWidth inputImage)
                              (mHeight inputImage))
        in
        (case smoothPixels pf (mType inputImage) weights (pixels inputImage) visited
                outputData of
           Inl e \<Rightarrow> (Inl e, s1)
         | Inr NULL \<Rightarrow> (Inr (), s1)
         | Inr (Ptr array) \<Rightarrow>
             (Inr (), s1\<lparr>outputPixels := assign output array (outputPixels s1)\<rparr>)))"

text \<open>The branch of \<^verbatim>\<open>execute\<close> for an OpenCL device.\<close>

definition executeOnDevice ::
  "platform \<Rightarrow> nat \<Rightarrow> Image \<Rightarrow> nat \<Rightarrow> GaussianSmoothingFilter \<Rightarrow> GaussianSmoothingFilter" where
  "executeOnDevice pf device inputImage output s =
     (let s1 = recompileOpenCLCode pf device inputImage s;
          s2 = (if mDimensions inputImage = 2
                then emit [GetOpenCLImageAccess2D (InputImage inputImage) ACCESS_READ device,
                           GetOpenCLImageAccess2D (OutputImage output) ACCESS_READ_WRITE device,
                           SetArg 0, SetArg 2] s1
                else emit [GetOpenCLImageAccess3D (InputImage inputImage) ACCESS_READ device,
                           GetOpenCLImageAccess3D (OutputImage output) ACCESS_READ_WRITE device,
                           SetArg 0, SetArg 2] s1);
          globalSize = (if mDimensions inputImage = 2
                        then [mWidth inputImage, mHeight inputImage]
                        else [mWidth inputImage, mHeight inputImage, mDepth inputImage])
      in emit [SetArg 1, SetArg 3, EnqueueNDRangeKernel device globalSize] s2)"

text \<open>
  The choice between the two. On the host, the switch over the element type runs the
  host algorithm at the type of the input; the macro that writes out its cases is not at
  hand and is taken to have one case for each element type. Otherwise the device branch
  runs.
\<close>

definition runAlgorithm ::
  "platform \<Rightarrow> Image \<Rightarrow> nat \<Rightarrow> GaussianSmoothingFilter
     \<Rightarrow> (failure + unit) \<times> GaussianSmoothingFilter" where
  "runAlgorithm pf inputImage output s =
     (case mDevice s of
        Host \<Rightarrow> executeAlgorithmOnHost pf inputImage output (mMask s) (mMaskSize s) s
      | OpenCLDevice device \<Rightarrow> (Inr (), executeOnDevice pf device inputImage output s))"

text \<open>
  The frame \<^verbatim>\<open>execute\<close> works on: the bound image, or the next frame of a dynamic
  input.
\<close>

definition resolveInput ::
  "input \<Rightarrow> GaussianSmoothingFilter \<Rightarrow> (failure + Image) \<times> GaussianSmoothingFilter" where
  "resolveInput inp s =
     (case inp of
        StaticInput img \<Rightarrow> (Inr img, s)
      | DynamicInput frames \<Rightarrow>
          (case getNextFrame frames of
             Inl e \<Rightarrow> (Inl e, emit [GetNextFrame] s)
           | Inr (frame, rest) \<Rightarrow>
               (Inr frame, (emit [GetNextFrame] s)\<lparr>mInput := Ptr (DynamicInput rest)\<rparr>)))"

text \<open>
  The image \<^verbatim>\<open>execute\<close> writes: the output object itself, or a new frame added to a
  dynamic output, which then holds the one lasting reference to it.
\<close>

definition resolveOutput ::
  "input \<Rightarrow> nat \<Rightarrow> GaussianSmoothingFilter \<Rightarrow> nat \<times> GaussianSmoothingFilter" where
  "resolveOutput inp out s =
     (if isDynamicData inp
      then (case newObject s of (frame, s1) \<Rightarrow> (frame, emit [AddFrame out frame] s1))
      else (out, s))"

text \<open>
  Modelled from the spec: \<^verbatim>\<open>Image::create2DImage\<close> and \<^verbatim>\<open>create3DImage\<close>, whose
  source is not at hand. An object may be created exactly once; a second call fails with
  AlreadyInitialized and changes nothing. A first call fixes the shape of the object and,
  on the host, allocates its host array, one cell for each component of each pixel and
  none of them written.
\<close>

definition initializeOutput ::
  "Image \<Rightarrow> nat \<Rightarrow> GaussianSmoothingFilter
     \<Rightarrow> (failure + unit) \<times> GaussianSmoothingFilter" where
  "initializeOutput inputImage output s =
     (if output \<in> set (initialized s) then (Inl AlreadyInitialized, s)
      else
        let s1 = (if mDimensions inputImage = 2
                  then emit [Create2DImage output (mWidth inputImage) (mHeight inputImage)
                               (mType inputImage) (mComponents inputImage) (mDevice s)] s
                  else emit [Create3DImage output (mWidth inputImage) (mHeight inputImage)
                               (mDepth inputImage) (mType inputImage) (mComponents inputImage)
                               (mDevice s)] s);
            cells = (if mDimensions inputImage = 2
                     then unat (mWidth inputImage * mHeight inputImage * mComponents inputImage)
                     else unat (mWidth inputImage * mHeight inputImage * mDepth inputImage
                                * mComponents inputImage));
            s2 = (case mDevice s1 of
                    Host \<Rightarrow> s1\<lparr>outputPixels := assign output (replicate cells None)
                                                     (outputPixels s1)\<rparr>
                  | OpenCLDevice _ \<Rightarrow> s1)
        in (Inr (), s2\<lparr>initialized := initialized s2 @ [output]\<rparr>))"

definition execute ::
  "platform \<Rightarrow> GaussianSmoothingFilter \<Rightarrow> (failure + unit) \<times> GaussianSmoothingFilter" where
  "execute pf s =
     (case mInput s of
        NULL \<Rightarrow> (Inl NoInputSupplied, s)
      | Ptr inp \<Rightarrow>
          (case lock (mOutput s) s of
             NULL \<Rightarrow> (Inr (), s)
           | Ptr out \<Rightarrow>
               (case resolveInput inp s of
                  (Inl e, s1) \<Rightarrow> (Inl e, s1)
                | (Inr inputImage, s1) \<Rightarrow>
                    (case resolveOutput inp out s1 of (output, s2) \<Rightarrow>
                       (case initializeOutput inputImage output s2 of
                          (Inl e, s3) \<Rightarrow> (Inl e, s3)
                        | (Inr _, s3) \<Rightarrow>
                            (case createMask pf inputImage s3 of
                               (Inl e, s4) \<Rightarrow> (Inl e, s4)
                             | (Inr _, s4) \<Rightarrow>
                                 (case runAlgorithm pf inputImage output s4 of
                                    (Inl e, s5) \<Rightarrow> (Inl e, s5)
                                  | (Inr _, s5) \<Rightarrow>
                                      (Inr (),
                                       emit [UpdateModifiedTimestamp output]
                                         (if isDynamicData inp then s5
                                          else emit [Release (mDevice s5)] s5)))))))))"

definition waitToFinish :: "GaussianSmoothingFilter \<Rightarrow> GaussianSmoothingFilter" where
  "waitToFinish s =
     (case mDevice s of Host \<Rightarrow> s | OpenCLDevice device \<Rightarrow> emit [Finish device] s)"

subsection \<open>Pulls and what they cost\<close>

text \<open>
  A pull of the output that reaches the stage runs \<^verbatim>\<open>execute\<close>; the state goes on
  from wherever \<^verbatim>\<open>execute\<close> left it. The mask is computed once for each allocation of
  its array, and the kernel is compiled once for each program created.
\<close>

definition pull :: "platform \<Rightarrow> GaussianSmoothingFilter \<Rightarrow> GaussianSmoothingFilter" where
  "pull pf s = snd (execute pf s)"


fun isMaskComputation :: "event \<Rightarrow> bool" where
  "isMaskComputation (NewFloatArray _) = True"
| "isMaskComputation _ = False"

fun isKernelCompilation :: "event \<Rightarrow> bool" where
  "isKernelCompilation (CreateProgramFromSource _ _ _) = True"
| "isKernelCompilation _ = False"

definition maskComputations :: "GaussianSmoothingFilter \<Rightarrow> nat" where
  "maskComputations s = length (filter isMaskComputation (trace s))"

definition kernelCompilations :: "GaussianSmoothingFilter \<Rightarrow> nat" where
  "kernelCompilations s = length (filter isKernelCompilation (trace s))"

text \<open>
  Whether \<^verbatim>\<open>execute\<close> would compile a kernel for an image: on an OpenCL device, when
  the dimensionality or the element type of the image differs from what the kernel was
  last compiled for.
\<close>

definition compiledFor :: "Image \<Rightarrow> GaussianSmoothingFilter \<Rightarrow> bool" where
  "compiledFor inputImage s =
     (mDimensions inputImage = mDimensionCLCodeCompiledFor s
      \<and> mType inputImage = mTypeCLCodeCompiledFor s)"

definition wouldCompile :: "Image \<Rightarrow> GaussianSmoothingFilter \<Rightarrow> bool" where
  "wouldCompile inputImage s = (mDevice s \<noteq> Host \<and> \<not> compiledFor inputImage s)"

text \<open>
  What a pull leaves alone when the input is static: the wiring, the references to the
  outputs, the device and the mask size. And the output that the weak pointer resolves
  to, when it has not yet been created as an image.
\<close>

definition sameWiring :: "GaussianSmoothingFilter \<Rightarrow> GaussianSmoothingFilter \<Rightarrow> bool" where
  "sameWiring s s' =
     (mInput s' = mInput s \<and> mTempOutput s' = mTempOutput s \<and> mOutput s' = mOutput s
      \<and> strongRefs s' = strongRefs s \<and> mDevice s' = mDevice s
      \<and> mMaskSize s' = mMaskSize s)"

definition outputNotCreated :: "GaussianSmoothingFilter \<Rightarrow> bool" where
  "outputNotCreated s =
     (case lock (mOutput s) s of
        NULL \<Rightarrow> False
      | Ptr out \<Rightarrow> out \<notin> set (initialized s))"

subsection \<open>Concrete stages\<close>

text \<open>
  A platform whose arithmetic is exact on finite values, with the OpenCL device 0 as the
  default device; a 4 by 4 image of one float component; and a stage as constructed,
  with an input bound, with its output handed to a caller, and after that caller has let
  go of the output.
\<close>

fun exactBinary :: "(real \<Rightarrow> real \<Rightarrow> real) \<Rightarrow> cfloat \<Rightarrow> cfloat \<Rightarrow> cfloat" where
  "exactBinary f (Finite a) (Finite b) = Finite (f a b)"
| "exactBinary f _ _ = NaN"

fun exactUnary :: "(real \<Rightarrow> real) \<Rightarrow> cfloat \<Rightarrow> cfloat" where
  "exactUnary f (Finite a) = Finite (f a)"
| "exactUnary f _ = NaN"

definition exactPlatform :: platform where
  "exactPlatform =
     \<lparr> FAST_ROOT_DIR = ''/'', defaultComputationDevice = OpenCLDevice 0,
       float_of_int = (\<lambda>i. Finite (of_int i)),
       float_neg = exactUnary uminus,
       float_add = exactBinary (+),
       float_mul = exactBinary (*),
       float_div = (\<lambda>a b. if b = Finite 0 then NaN else exactBinary (/) a b),
       float_exp = exactUnary exp,
       double_add = exactBinary (+),
       cast_from_double =
         (\<lambda>type. if type = TYPE_FLOAT then id
                  else exactUnary (\<lambda>r. sgn r * of_int \<lfloor>\<bar>r\<bar>\<rfloor>)) \<rparr>"

definition exampleImage :: Image where
  "exampleImage =
     \<lparr> mWidth = 4, mHeight = 4, mType = TYPE_FLOAT, mComponents = 1, mDimensions = 2,
       mDepth = 1, pixels = replicate 16 (Some (Finite 1)) \<rparr>"

definition newFilter :: GaussianSmoothingFilter where
  "newFilter =
     GaussianSmoothingFilter_ctor exactPlatform
       \<lparr> mInput = NULL, mTempOutput = NULL, mOutput = NULL, mDevice = Host,
         mStdDev = NaN, mMaskSize = 0, mIsModified = False, mRecreateMask = False,
         mMask = NULL, mCLMask = NULL, mKernel = NULL,
         mDimensionCLCodeCompiledFor = 0, mTypeCLCodeCompiledFor = TYPE_UINT8,
         strongRefs = [], initialized = [], outputPixels = [], trace = [] \<rparr>"

definition wiredFilter :: GaussianSmoothingFilter where
  "wiredFilter = snd (setInput (Ptr (StaticInput exampleImage)) newFilter)"

definition connectedFilter :: GaussianSmoothingFilter where
  "connectedFilter = snd (getOutput wiredFilter)"

definition abandonedFilter :: GaussianSmoothingFilter where
  "abandonedFilter = releaseRef (Ptr 0) connectedFilter"

text \<open>
  The connected stage after a first pull; that stage with the image bound again, which
  gives it a new output placeholder, and the new output handed to a caller; and that
  stage after its mask size has then been set to 5.
\<close>

definition ranFilter :: GaussianSmoothingFilter where
  "ranFilter = pull exactPlatform connectedFilter"



subsection \<open>Facts about the flag tables\<close>

lemma anyFlag_iff: "anyFlag m \<longleftrightarrow> (\<exists>d. (d, True) \<in> set m)"
  by (induction m) (auto split: if_splits)

lemma firstUpToDate_None_iff: "firstUpToDate m = None \<longleftrightarrow> \<not> anyFlag m"
  by (induction m) (auto split: if_splits)

lemma set_clearFlags: "(d, True) \<notin> set (clearFlags m)"
  by (induction m) auto

lemma anyFlag_clearFlags: "\<not> anyFlag (clearFlags m)"
  by (simp add: anyFlag_iff set_clearFlags)

lemma assign_True_mem: "(k, True) \<in> set (assign k True m)"
  by (induction m) auto

lemma assign_other:
  "k' \<noteq> k \<Longrightarrow> (k', b) \<in> set (assign k v m) \<longleftrightarrow> (k', b) \<in> set m"
  by (induction m) (auto split: if_splits)

lemma assign_True_iff:
  "(k', True) \<in> set (assign k True m) \<longleftrightarrow> k' = k \<or> (k', True) \<in> set m"
proof (cases "k' = k")
  case True
  then show ?thesis by (simp add: assign_True_mem)
next
  case False
  then show ?thesis by (simp add: assign_other)
qed

lemma anyFlag_assign_True: "anyFlag (assign k True m)"
  unfolding anyFlag_iff by (rule exI [of _ k]) (rule assign_True_mem)

lemma map_of_assign: "map_of (assign k v m) k' = (if k' = k then Some v else map_of m k')"
  by (induction m) auto

lemma isAnyDataBeingAccessed_iff: "isAnyDataBeingAccessed s \<longleftrightarrow> (\<exists>l. lockedAt s l)"
proof
  assume "isAnyDataBeingAccessed s"
  then consider "mHostDataIsBeingAccessed s" | d where "(d, True) \<in> set (mCLImagesAccess s)"
    by (auto simp: isAnyDataBeingAccessed_def anyFlag_iff split: if_splits)
  then show "\<exists>l. lockedAt s l"
  proof cases
    case 1
    then have "lockedAt s Host" by (simp add: lockedAt_def)
    then show ?thesis ..
  next
    case 2
    then have "lockedAt s (OpenCLDevice d)" by (simp add: lockedAt_def)
    then show ?thesis ..
  qed
next
  assume "\<exists>l. lockedAt s l"
  then obtain l where l: "lockedAt s l" ..
  show "isAnyDataBeingAccessed s"
  proof (cases l)
    case Host
    with l show ?thesis by (simp add: lockedAt_def isAnyDataBeingAccessed_def)
  next
    case (OpenCLDevice d)
    with l have "(d, True) \<in> set (mCLImagesAccess s)" by (simp add: lockedAt_def)
    then have "anyFlag (mCLImagesAccess s)" unfolding anyFlag_iff ..
    then show ?thesis by (simp add: isAnyDataBeingAccessed_def)
  qed
qed

lemma anyUpToDate_iff: "anyUpToDate s \<longleftrightarrow> (\<exists>l. upToDateAt s l)"
proof
  assume "anyUpToDate s"
  then consider "mHostDataIsUpToDate s" | d where "(d, True) \<in> set (mCLImagesIsUpToDate s)"
    by (auto simp: anyUpToDate_def anyFlag_iff)
  then show "\<exists>l. upToDateAt s l"
  proof cases
    case 1
    then have "upToDateAt s Host" by (simp add: upToDateAt_def)
    then show ?thesis ..
  next
    case 2
    then have "upToDateAt s (OpenCLDevice d)" by (simp add: upToDateAt_def)
    then show ?thesis ..
  qed
next
  assume "\<exists>l. upToDateAt s l"
  then obtain l where l: "upToDateAt s l" ..
  show "anyUpToDate s"
  proof (cases l)
    case Host
    with l show ?thesis by (simp add: upToDateAt_def anyUpToDate_def)
  next
    case (OpenCLDevice d)
    with l have "(d, True) \<in> set (mCLImagesIsUpToDate s)" by (simp add: upToDateAt_def)
    then have "anyFlag (mCLImagesIsUpToDate s)" unfolding anyFlag_iff ..
    then show ?thesis by (simp add: anyUpToDate_def)
  qed
qed

lemma getImageAccess_write_locked:
  "isAnyDataBeingAccessed s \<Longrightarrow>
     getImageAccess ACCESS_READ_WRITE s = (Inl ConcurrentAccessViolation, s)"
  by (simp add: getImageAccess_def)

lemma getOpenCLImageAccess_write_locked:
  "isAnyDataBeingAccessed s \<Longrightarrow>
     getOpenCLImageAccess ACCESS_READ_WRITE d s = (Inl ConcurrentAccessViolation, s)"
  by (simp add: getOpenCLImageAccess_def)

lemma getImageAccess_write_free:
  "\<not> isAnyDataBeingAccessed s \<Longrightarrow>
     getImageAccess ACCESS_READ_WRITE s =
       (Inr (ImageAccess2D (mHostData s)),
        s\<lparr>mHostDataIsUpToDate := True, mHostDataIsBeingAccessed := True,
          mCLImagesIsUpToDate := clearFlags (mCLImagesIsUpToDate s)\<rparr>)"
  by (simp add: getImageAccess_def updateHostData_def setAllDataToOutOfDate_def)

lemma getOpenCLImageAccess_write_free:
  "\<not> isAnyDataBeingAccessed s \<Longrightarrow>
     getOpenCLImageAccess ACCESS_READ_WRITE d s =
       (Inr (OpenCLImageAccess2D (fst (subscript NULL d (mCLImages s))) d),
        s\<lparr>mHostDataIsUpToDate := False,
          mCLImagesIsUpToDate := assign d True (clearFlags (mCLImagesIsUpToDate s)),
          mCLImagesAccess := assign d True (mCLImagesAccess s),
          mCLImages := snd (subscript NULL d (mCLImages s))\<rparr>)"
  by (simp add: getOpenCLImageAccess_def updateOpenCLImageData_def setAllDataToOutOfDate_def
      map_of_assign Let_def split: prod.splits)

lemma hostImage_eq:
  "hostImage = \<lparr> mWidth = 2, mHeight = 2, mType = TYPE_FLOAT,
       mComponents = 1, mDimensions = 2,
       mHostData = Ptr 0, mHostHasData = True, mHostDataIsUpToDate = False,
       mHostDataIsBeingAccessed = False,
       mCLImages = [], mCLImagesIsUpToDate = [], mCLImagesAccess = [],
       allocated = [Uninitialized] \<rparr>"
  by (simp add: hostImage_def freshImage_def createImage_def Image2D_ctor_def isInitialized_def new_def)

lemma deviceImage_eq:
  "deviceImage = \<lparr> mWidth = 2, mHeight = 2, mType = TYPE_FLOAT,
       mComponents = 1, mDimensions = 2,
       mHostData = NULL, mHostHasData = False, mHostDataIsUpToDate = False,
       mHostDataIsBeingAccessed = False,
       mCLImages = [(0, Ptr 0)], mCLImagesIsUpToDate = [(0, True)], mCLImagesAccess = [(0, False)],
       allocated = [Content [1, 2, 3, 4]] \<rparr>"
  by (simp add: deviceImage_def freshImage_def createImageWithData_def Image2D_ctor_def isInitialized_def new_def)

lemmas access_defs =
  acquireAccess_def getImageAccess_def getOpenCLImageAccess_def updateHostData_def
  updateOpenCLImageData_def transferCLImageToHost_def transferCLImageFromHost_def
  setAllDataToOutOfDate_def isAnyDataBeingAccessed_def subscript_def new_def
  releaseImageAccess_def releaseOpenCLImageAccess_def

lemma lockedImage_eq:
  "lockedImage = deviceImage\<lparr>mCLImagesAccess := [(0, True)]\<rparr>"
  by (simp add: lockedImage_def deviceImage_eq access_defs)

lemma hostReadImage_eq:
  "hostReadImage = deviceImage\<lparr>mHostData := Ptr 1,
      allocated := [Content [1, 2, 3, 4], Content [1, 2, 3, 4]]\<rparr>"
  by (simp add: hostReadImage_def deviceImage_eq access_defs)

lemma staleDeviceImage_eq:
  "staleDeviceImage = \<lparr> mWidth = 2, mHeight = 2, mType = TYPE_FLOAT,
       mComponents = 1, mDimensions = 2,
       mHostData = Ptr 1, mHostHasData = False, mHostDataIsUpToDate = False,
       mHostDataIsBeingAccessed = False,
       mCLImages = [(0, Ptr 0), (1, Ptr 2)],
       mCLImagesIsUpToDate = [(0, True), (1, False)],
       mCLImagesAccess = [(0, False), (1, False)],
       allocated = [Content [1, 2, 3, 4], Content [1, 2, 3, 4], Content [1, 2, 3, 4]] \<rparr>"
  by (simp add: staleDeviceImage_def deviceImage_eq access_defs)

lemma staleDeviceReadImage_eq:
  "staleDeviceReadImage = staleDeviceImage\<lparr>mHostDataIsUpToDate := True,
       mCLImagesAccess := [(0, False), (1, True)]\<rparr>"
  by (simp add: staleDeviceReadImage_def staleDeviceImage_eq access_defs)

lemma deviceImage_unlocked: "\<not> lockedAt deviceImage l"
  by (cases l) (simp_all add: lockedAt_def deviceImage_eq)

lemma failure_names_distinct:
  "ConcurrentAccessViolation \<noteq> CoherenceViolation"
  "NullPointerDereference \<noteq> CoherenceViolation"
  "OutOfBounds \<noteq> CoherenceViolation"
  by (simp_all add: ConcurrentAccessViolation_def CoherenceViolation_def)

lemma transferCLImageToHost_not_coherence:
  "fst (transferCLImageToHost d s) \<noteq> Inl CoherenceViolation"
  by (simp add: transferCLImageToHost_def failure_names_distinct Let_def
      split: prod.splits pointer.splits if_splits)

lemma transferCLImageFromHost_not_coherence:
  "fst (transferCLImageFromHost d s) \<noteq> Inl CoherenceViolation"
  by (simp add: transferCLImageFromHost_def failure_names_distinct Let_def
      split: prod.splits pointer.splits if_splits)

lemma updateHostData_coherence:
  "fst (updateHostData s) = Inl CoherenceViolation \<longleftrightarrow>
     \<not> mHostDataIsUpToDate s \<and> mCLImages s \<noteq> [] \<and> \<not> anyFlag (mCLImagesIsUpToDate s)"
  using transferCLImageToHost_not_coherence
  by (auto simp: updateHostData_def new_def Let_def firstUpToDate_None_iff [symmetric]
      split: option.splits)

lemma updateOpenCLImageData_coherence:
  "fst (updateOpenCLImageData d s) = Inl CoherenceViolation \<longleftrightarrow>
     map_of (mCLImagesIsUpToDate s) d = Some False
     \<and> \<not> mHostDataIsUpToDate s \<and> \<not> anyFlag (mCLImagesIsUpToDate s)"
proof (cases "map_of (mCLImagesIsUpToDate s) d")
  case None
  let ?s1 = "s\<lparr>allocated := allocated s @ [Uninitialized],
               mCLImages := assign d (Ptr (length (allocated s))) (mCLImages s),
               mCLImagesIsUpToDate := assign d True (mCLImagesIsUpToDate s),
               mCLImagesAccess := assign d True (mCLImagesAccess s)\<rparr>"
  have "firstUpToDate (assign d True (mCLImagesIsUpToDate s)) \<noteq> None"
    by (simp add: firstUpToDate_None_iff anyFlag_assign_True)
  then obtain src where src: "firstUpToDate (assign d True (mCLImagesIsUpToDate s)) = Some src"
    by blast
  have "fst (updateOpenCLImageData d s) \<noteq> Inl CoherenceViolation"
    using None src transferCLImageFromHost_not_coherence [of d ?s1]
      transferCLImageToHost_not_coherence [of src ?s1]
      transferCLImageFromHost_not_coherence [of d "snd (transferCLImageToHost src ?s1)"]
    by (auto simp: updateOpenCLImageData_def new_def Let_def split: prod.splits sum.splits)
  with None show ?thesis by simp
next
  case (Some b)
  show ?thesis
  proof (cases b)
    case True
    with Some show ?thesis by (simp add: updateOpenCLImageData_def)
  next
    case False
    show ?thesis
    proof (cases "firstUpToDate (mCLImagesIsUpToDate s)")
      case None
      with Some False show ?thesis
        using transferCLImageFromHost_not_coherence [of d s]
        by (auto simp: updateOpenCLImageData_def Let_def firstUpToDate_None_iff [symmetric])
    next
      case (Some src)
      then have "anyFlag (mCLImagesIsUpToDate s)"
        using firstUpToDate_None_iff [of "mCLImagesIsUpToDate s"] by simp
      moreover have "fst (updateOpenCLImageData d s) \<noteq> Inl CoherenceViolation"
        using \<open>map_of (mCLImagesIsUpToDate s) d = Some b\<close> False Some
          transferCLImageFromHost_not_coherence [of d s]
          transferCLImageToHost_not_coherence [of src s]
          transferCLImageFromHost_not_coherence [of d "snd (transferCLImageToHost src s)"]
        by (auto simp: updateOpenCLImageData_def Let_def split: prod.splits sum.splits)
      ultimately show ?thesis by simp
    qed
  qed
qed

lemma stale_entry_iff:
  assumes "\<not> anyFlag m"
  shows "map_of m d = Some False \<longleftrightarrow> d \<in> fst ` set m"
proof
  assume "map_of m d = Some False"
  then have "(d, False) \<in> set m" by (rule map_of_SomeD)
  then show "d \<in> fst ` set m" by force
next
  assume "d \<in> fst ` set m"
  then obtain b where b: "map_of m d = Some b"
    using map_of_eq_None_iff [of m d] by (cases "map_of m d") auto
  then have "(d, b) \<in> set m" by (rule map_of_SomeD)
  with assms have "b = False" by (auto simp: anyFlag_iff)
  with b show "map_of m d = Some False" by simp
qed

lemma no_location_up_to_date_iff:
  "(\<forall>l. \<not> upToDateAt s l) \<longleftrightarrow> \<not> mHostDataIsUpToDate s \<and> \<not> anyFlag (mCLImagesIsUpToDate s)"
  using anyUpToDate_iff [of s] unfolding anyUpToDate_def by blast

lemma transferCLImageToHost_flags:
  "mHostDataIsUpToDate (snd (transferCLImageToHost d s)) = mHostDataIsUpToDate s"
  "mCLImagesIsUpToDate (snd (transferCLImageToHost d s)) = mCLImagesIsUpToDate s"
  by (simp_all add: transferCLImageToHost_def Let_def
      split: prod.splits pointer.splits if_splits)

lemma transferCLImageFromHost_flags:
  "mHostDataIsUpToDate (snd (transferCLImageFromHost d s)) = mHostDataIsUpToDate s"
  "mCLImagesIsUpToDate (snd (transferCLImageFromHost d s)) = mCLImagesIsUpToDate s"
  by (simp_all add: transferCLImageFromHost_def Let_def
      split: prod.splits pointer.splits if_splits)

lemma anyUpToDate_transferCLImageToHost:
  "anyUpToDate (snd (transferCLImageToHost d s)) = anyUpToDate s"
  by (simp add: anyUpToDate_def transferCLImageToHost_flags)

lemma anyUpToDate_transferCLImageFromHost:
  "anyUpToDate (snd (transferCLImageFromHost d s)) = anyUpToDate s"
  by (simp add: anyUpToDate_def transferCLImageFromHost_flags)

lemma anyUpToDate_updateHostData:
  "anyUpToDate s \<Longrightarrow> anyUpToDate (snd (updateHostData s))"
  by (auto simp: updateHostData_def new_def Let_def anyUpToDate_transferCLImageToHost
      split: option.splits)
    (simp_all add: anyUpToDate_def)

lemma anyUpToDate_updateOpenCLImageData:
  assumes "anyUpToDate s"
  shows "anyUpToDate (snd (updateOpenCLImageData d s))"
proof (cases "map_of (mCLImagesIsUpToDate s) d = Some True")
  case True
  with assms show ?thesis by (simp add: updateOpenCLImageData_def)
next
  case False
  define s1 where "s1 = (if map_of (mCLImagesIsUpToDate s) d = None
                  then (case new Uninitialized s of (newImage, s') \<Rightarrow>
                          s'\<lparr>mCLImages := assign d newImage (mCLImages s'),
                             mCLImagesIsUpToDate := assign d True (mCLImagesIsUpToDate s'),
                             mCLImagesAccess := assign d True (mCLImagesAccess s')\<rparr>)
                  else s)"
  have s1: "anyUpToDate s1"
    using assms by (auto simp: s1_def new_def anyUpToDate_def anyFlag_assign_True)
  have run: "updateOpenCLImageData d s =
     (if mHostDataIsUpToDate s1 then transferCLImageFromHost d s1
        else
          (case firstUpToDate (mCLImagesIsUpToDate s1) of
             Some src \<Rightarrow>
               (case transferCLImageToHost src s1 of
                  (Inl e, s2) \<Rightarrow> (Inl e, s2)
                | (Inr _, s2) \<Rightarrow>
                    (case transferCLImageFromHost d s2 of
                       (Inl e, s3) \<Rightarrow> (Inl e, s3)
                     | (Inr _, s3) \<Rightarrow> (Inr (), s3\<lparr>mHostDataIsUpToDate := True\<rparr>)))
           | None \<Rightarrow> (Inl CoherenceViolation, s1)))"
    using False unfolding updateOpenCLImageData_def s1_def Let_def by simp
  show ?thesis
  proof (cases "mHostDataIsUpToDate s1")
    case True
    with run s1 show ?thesis by (simp add: anyUpToDate_transferCLImageFromHost)
  next
    case nohost: False
    show ?thesis
    proof (cases "firstUpToDate (mCLImagesIsUpToDate s1)")
      case None
      with run nohost s1 show ?thesis by simp
    next
      case (Some src)
      show ?thesis
      proof (cases "transferCLImageToHost src s1")
        case (Pair r s2)
        then have s2: "anyUpToDate s2"
          using s1 anyUpToDate_transferCLImageToHost [of src s1] by simp
        show ?thesis
        proof (cases r)
          case (Inl e)
          with run nohost Some Pair s2 show ?thesis by simp
        next
          case (Inr u)
          show ?thesis
          proof (cases "transferCLImageFromHost d s2")
            case inner: (Pair r' s3)
            then have s3: "anyUpToDate s3"
              using s2 anyUpToDate_transferCLImageFromHost [of d s2] by simp
            with run nohost Some Pair Inr inner show ?thesis
              by (cases r') (simp_all add: anyUpToDate_def)
          qed
        qed
      qed
    qed
  qed
qed

lemma anyUpToDate_getImageAccess:
  assumes "anyUpToDate s"
  shows "anyUpToDate (snd (getImageAccess type s))"
proof (cases "type = ACCESS_READ_WRITE")
  case True
  then show ?thesis
    using assms
    by (cases "isAnyDataBeingAccessed s")
      (simp_all add: getImageAccess_write_locked getImageAccess_write_free anyUpToDate_def)
next
  case False
  then have "snd (getImageAccess type s) = snd (updateHostData s)"
    by (simp add: getImageAccess_def split: prod.splits sum.splits)
  with assms show ?thesis by (simp add: anyUpToDate_updateHostData)
qed

lemma anyUpToDate_getOpenCLImageAccess:
  assumes "anyUpToDate s"
  shows "anyUpToDate (snd (getOpenCLImageAccess type d s))"
proof (cases "type = ACCESS_READ_WRITE")
  case True
  then show ?thesis
    using assms
    by (cases "isAnyDataBeingAccessed s")
      (simp_all add: getOpenCLImageAccess_write_locked getOpenCLImageAccess_write_free
        anyUpToDate_def anyFlag_assign_True)
next
  case False
  let ?s2 = "s\<lparr>mCLImagesAccess := assign d True (mCLImagesAccess s)\<rparr>"
  have "anyUpToDate ?s2" using assms by (simp add: anyUpToDate_def)
  then have "anyUpToDate (snd (updateOpenCLImageData d ?s2))"
    by (rule anyUpToDate_updateOpenCLImageData)
  moreover have "anyUpToDate (snd (getOpenCLImageAccess type d s))
                   = anyUpToDate (snd (updateOpenCLImageData d ?s2))"
    using False
    by (simp add: getOpenCLImageAccess_def Let_def anyUpToDate_def split: prod.splits sum.splits)
  ultimately show ?thesis by simp
qed

lemma snd_acquireAccess:
  "snd (acquireAccess location type s) =
     (case location of
        Host \<Rightarrow> snd (getImageAccess type s)
      | OpenCLDevice d \<Rightarrow> snd (getOpenCLImageAccess type d s))"
  by (simp add: acquireAccess_def split: ExecutionDevice.splits prod.splits)

lemma anyUpToDate_perform: "anyUpToDate s \<Longrightarrow> anyUpToDate (perform c s)"
proof (cases c)
  case (Acquire location type)
  assume "anyUpToDate s"
  with Acquire show ?thesis
    by (cases location)
      (simp_all add: snd_acquireAccess anyUpToDate_getImageAccess
        anyUpToDate_getOpenCLImageAccess)
next
  case ReleaseHost
  assume "anyUpToDate s"
  with ReleaseHost show ?thesis by (simp add: releaseImageAccess_def anyUpToDate_def)
next
  case (ReleaseDevice d)
  assume "anyUpToDate s"
  with ReleaseDevice show ?thesis by (simp add: releaseOpenCLImageAccess_def anyUpToDate_def)
qed

lemma anyUpToDate_performAll: "anyUpToDate s \<Longrightarrow> anyUpToDate (performAll cs s)"
  by (induction cs arbitrary: s) (simp_all add: anyUpToDate_perform)

text \<open>
  Claim C1 at the input where the code departs from it. \<^verbatim>\<open>createImage\<close> on the host
  without data initialises the object and marks no location up to date, and a following
  read at the host and its release leave it so.
\<close>

theorem create_on_host_nothing_up_to_date:
  "createImage 2 2 TYPE_FLOAT 1 Host freshImage = (Inr (), hostImage)
   \<and> isInitialized hostImage
   \<and> \<not> anyUpToDate hostImage
   \<and> \<not> anyUpToDate (performAll [Acquire Host ACCESS_READ, ReleaseHost] hostImage)"
  by (simp add: hostImage_eq freshImage_def Image2D_ctor_def createImage_def new_def
      isInitialized_def anyUpToDate_def access_defs)

text \<open>
  Claim C2. A request for read-write access while some location, the host or any device,
  is locked fails with the concurrent-access failure and leaves the object as it was.
  With no location locked the request succeeds, and afterwards the target is the one
  location that is up to date and the one location that is locked.
\<close>

theorem readwrite_exclusive:
  "((\<exists>l. lockedAt s l) \<longrightarrow>
      acquireAccess target ACCESS_READ_WRITE s = (Inl ConcurrentAccessViolation, s))
   \<and> ((\<forall>l. \<not> lockedAt s l) \<longrightarrow>
        (\<exists>a s'. acquireAccess target ACCESS_READ_WRITE s = (Inr a, s')
           \<and> (\<forall>l. upToDateAt s' l \<longleftrightarrow> l = target)
           \<and> (\<forall>l. lockedAt s' l \<longleftrightarrow> l = target)))"
proof (intro conjI impI)
  assume "\<exists>l. lockedAt s l"
  then have "isAnyDataBeingAccessed s" by (simp add: isAnyDataBeingAccessed_iff)
  then show "acquireAccess target ACCESS_READ_WRITE s = (Inl ConcurrentAccessViolation, s)"
    by (cases target)
      (simp_all add: acquireAccess_def getImageAccess_write_locked getOpenCLImageAccess_write_locked)
next
  assume free: "\<forall>l. \<not> lockedAt s l"
  then have nacc: "\<not> isAnyDataBeingAccessed s" by (simp add: isAnyDataBeingAccessed_iff)
  from free have nohost: "\<not> mHostDataIsBeingAccessed s"
    and nodev: "\<And>k. (k, True) \<notin> set (mCLImagesAccess s)"
    using free [rule_format, of Host] free [rule_format, of "OpenCLDevice k" for k]
    by (simp_all add: lockedAt_def)
  show "\<exists>a s'. acquireAccess target ACCESS_READ_WRITE s = (Inr a, s')
           \<and> (\<forall>l. upToDateAt s' l \<longleftrightarrow> l = target)
           \<and> (\<forall>l. lockedAt s' l \<longleftrightarrow> l = target)"
  proof (cases target)
    case Host
    let ?s' = "s\<lparr>mHostDataIsUpToDate := True, mHostDataIsBeingAccessed := True,
                  mCLImagesIsUpToDate := clearFlags (mCLImagesIsUpToDate s)\<rparr>"
    have run: "acquireAccess target ACCESS_READ_WRITE s =
                 (Inr (HostAccess (ImageAccess2D (mHostData s))), ?s')"
      using nacc Host by (simp add: acquireAccess_def getImageAccess_write_free)
    have up: "upToDateAt ?s' l \<longleftrightarrow> l = target" for l
      using Host by (cases l) (simp_all add: upToDateAt_def set_clearFlags)
    have lk: "lockedAt ?s' l \<longleftrightarrow> l = target" for l
      using Host nodev by (cases l) (simp_all add: lockedAt_def)
    from run up lk show ?thesis by blast
  next
    case (OpenCLDevice d)
    let ?s' = "s\<lparr>mHostDataIsUpToDate := False,
          mCLImagesIsUpToDate := assign d True (clearFlags (mCLImagesIsUpToDate s)),
          mCLImagesAccess := assign d True (mCLImagesAccess s),
          mCLImages := snd (subscript NULL d (mCLImages s))\<rparr>"
    have run: "acquireAccess target ACCESS_READ_WRITE s =
       (Inr (DeviceAccess (OpenCLImageAccess2D (fst (subscript NULL d (mCLImages s))) d)), ?s')"
      using nacc OpenCLDevice by (simp add: acquireAccess_def getOpenCLImageAccess_write_free)
    have up: "upToDateAt ?s' l \<longleftrightarrow> l = target" for l
      using OpenCLDevice by (cases l) (simp_all add: upToDateAt_def assign_True_iff set_clearFlags)
    have lk: "lockedAt ?s' l \<longleftrightarrow> l = target" for l
      using OpenCLDevice nodev nohost by (cases l) (simp_all add: lockedAt_def assign_True_iff)
    from run up lk show ?thesis by blast
  qed
qed

theorem readwrite_exclusive_witness:
  "lockedAt lockedImage (OpenCLDevice 0)
   \<and> acquireAccess Host ACCESS_READ_WRITE lockedImage = (Inl ConcurrentAccessViolation, lockedImage)
   \<and> (\<exists>a s'. acquireAccess (OpenCLDevice 1) ACCESS_READ_WRITE deviceImage = (Inr a, s')
         \<and> (\<forall>l. upToDateAt s' l \<longleftrightarrow> l = OpenCLDevice 1)
         \<and> (\<forall>l. lockedAt s' l \<longleftrightarrow> l = OpenCLDevice 1))"
proof -
  have locked: "lockedAt lockedImage (OpenCLDevice 0)"
    by (simp add: lockedAt_def lockedImage_eq deviceImage_eq)
  then have ex: "\<exists>l. lockedAt lockedImage l" ..
  have free: "\<forall>l. \<not> lockedAt deviceImage l"
    by (simp add: deviceImage_unlocked)
  from locked ex free
    readwrite_exclusive [of lockedImage Host]
    readwrite_exclusive [of deviceImage "OpenCLDevice 1"]
  show ?thesis by blast
qed

text \<open>
  Claim C3, as amended. An access fails with the coherence failure exactly when it is a
  read, no location is marked up to date, and the refresh looks for a source: at a
  device that already has an entry in the table, or at the host of an object that has at
  least one device image. A read at the host of an object without device images is
  served without any failure although nothing is marked up to date.
\<close>

theorem coherence_violation_iff:
  "fst (acquireAccess target type s) = Inl CoherenceViolation \<longleftrightarrow>
     type = ACCESS_READ \<and> (\<forall>l. \<not> upToDateAt s l)
     \<and> (case target of
          Host \<Rightarrow> mCLImages s \<noteq> []
        | OpenCLDevice d \<Rightarrow> d \<in> fst ` set (mCLImagesIsUpToDate s))"
proof (cases type)
  case ACCESS_READ_WRITE
  have "fst (acquireAccess target ACCESS_READ_WRITE s) \<noteq> Inl CoherenceViolation"
  proof (cases "isAnyDataBeingAccessed s")
    case True
    then show ?thesis
      by (cases target)
        (simp_all add: acquireAccess_def getImageAccess_write_locked
          getOpenCLImageAccess_write_locked failure_names_distinct)
  next
    case False
    then show ?thesis
      by (cases target)
        (simp_all add: acquireAccess_def getImageAccess_write_free
          getOpenCLImageAccess_write_free)
  qed
  with ACCESS_READ_WRITE show ?thesis by simp
next
  case ACCESS_READ
  show ?thesis
  proof (cases target)
    case Host
    have "fst (acquireAccess Host ACCESS_READ s) = Inl CoherenceViolation \<longleftrightarrow>
            fst (updateHostData s) = Inl CoherenceViolation"
      by (auto simp: acquireAccess_def getImageAccess_def split: prod.splits sum.splits)
    with Host ACCESS_READ show ?thesis
      by (auto simp: updateHostData_coherence no_location_up_to_date_iff)
  next
    case (OpenCLDevice d)
    let ?s2 = "s\<lparr>mCLImagesAccess := assign d True (mCLImagesAccess s)\<rparr>"
    have "fst (acquireAccess (OpenCLDevice d) ACCESS_READ s) = Inl CoherenceViolation \<longleftrightarrow>
            fst (updateOpenCLImageData d ?s2) = Inl CoherenceViolation"
      by (auto simp: acquireAccess_def getOpenCLImageAccess_def Let_def
          split: prod.splits sum.splits)
    with OpenCLDevice ACCESS_READ show ?thesis
      using stale_entry_iff [of "mCLImagesIsUpToDate s" d]
      by (auto simp: updateOpenCLImageData_coherence no_location_up_to_date_iff)
  qed
qed

theorem coherence_violation_iff_witness:
  "fst (acquireAccess (OpenCLDevice 0) ACCESS_READ incoherentImage) = Inl CoherenceViolation
   \<and> fst (acquireAccess Host ACCESS_READ incoherentImage) = Inl CoherenceViolation
   \<and> fst (acquireAccess Host ACCESS_READ hostImage) \<noteq> Inl CoherenceViolation"
proof -
  have none: "\<forall>l. \<not> upToDateAt incoherentImage l"
    by (simp add: no_location_up_to_date_iff incoherentImage_def deviceImage_eq)
  have dev: "(0::nat) \<in> fst ` set (mCLImagesIsUpToDate incoherentImage)"
    by (simp add: incoherentImage_def)
  have img: "mCLImages incoherentImage \<noteq> []"
    by (simp add: incoherentImage_def deviceImage_eq)
  have noimg: "mCLImages hostImage = []"
    by (simp add: hostImage_eq)
  from none dev img noimg
    coherence_violation_iff [of "OpenCLDevice 0" ACCESS_READ incoherentImage]
    coherence_violation_iff [of Host ACCESS_READ incoherentImage]
    coherence_violation_iff [of Host ACCESS_READ hostImage]
  show ?thesis by simp
qed

text \<open>
  The claim as stated fails on the object created on the host without data: its host copy
  is stale, no location is marked up to date, and the read is served.
\<close>

theorem stale_host_read_without_source_counterexample:
  "\<not> anyUpToDate hostImage
   \<and> \<not> mHostDataIsUpToDate hostImage
   \<and> acquireAccess Host ACCESS_READ hostImage
       = (Inr (HostAccess (ImageAccess2D (Ptr 0))), hostImage)"
  by (simp add: hostImage_eq anyUpToDate_def access_defs)

text \<open>
  Claim C4 at two inputs where the code departs from it. A read at the stale host of an
  object that is up to date on device 0 copies the device image to the host and leaves
  the host neither marked up to date nor locked. A read at the stale device 1 of an object
  that is up to date on device 0 goes through the host and locks device 1, and leaves
  device 1 marked stale.
\<close>

theorem stale_read_leaves_target_stale:
  "acquireAccess Host ACCESS_READ deviceImage
     = (Inr (HostAccess (ImageAccess2D (Ptr 1))), hostReadImage)
   \<and> allocated hostReadImage ! 1 = Content [1, 2, 3, 4]
   \<and> \<not> upToDateAt hostReadImage Host
   \<and> \<not> lockedAt hostReadImage Host
   \<and> upToDateAt staleDeviceImage (OpenCLDevice 0)
   \<and> map_of (mCLImagesIsUpToDate staleDeviceImage) 1 = Some False
   \<and> acquireAccess (OpenCLDevice 1) ACCESS_READ staleDeviceImage
       = (Inr (DeviceAccess (OpenCLImageAccess2D (Ptr 2) 1)), staleDeviceReadImage)
   \<and> lockedAt staleDeviceReadImage (OpenCLDevice 1)
   \<and> upToDateAt staleDeviceReadImage Host
   \<and> \<not> upToDateAt staleDeviceReadImage (OpenCLDevice 1)"
  by (simp add: hostReadImage_eq staleDeviceReadImage_eq staleDeviceImage_eq deviceImage_eq
      upToDateAt_def lockedAt_def access_defs)

text \<open>
  Claim C10. For a device without an entry in the table of device images, a read-write
  request that is not refused marks the device up to date before the update step runs, so
  the update step returns at once without allocating; the accessor is built from the null
  pointer that reading the table inserts for the device.
\<close>

theorem first_touch_write_allocates_nothing:
  assumes "d \<notin> fst ` set (mCLImages s)" and "\<not> isAnyDataBeingAccessed s"
  shows "updateOpenCLImageData d
           (s\<lparr>mHostDataIsUpToDate := False,
              mCLImagesIsUpToDate := assign d True (clearFlags (mCLImagesIsUpToDate s)),
              mCLImagesAccess := assign d True (mCLImagesAccess s)\<rparr>)
         = (Inr (),
            s\<lparr>mHostDataIsUpToDate := False,
              mCLImagesIsUpToDate := assign d True (clearFlags (mCLImagesIsUpToDate s)),
              mCLImagesAccess := assign d True (mCLImagesAccess s)\<rparr>)
       \<and> (\<exists>s'. getOpenCLImageAccess ACCESS_READ_WRITE d s
                   = (Inr (OpenCLImageAccess2D NULL d), s')
             \<and> allocated s' = allocated s
             \<and> mCLImages s' = mCLImages s @ [(d, NULL)]
             \<and> upToDateAt s' (OpenCLDevice d))"
proof -
  from assms(1) have none: "map_of (mCLImages s) d = None"
    by (simp add: map_of_eq_None_iff)
  then have sub: "subscript NULL d (mCLImages s) = (NULL, mCLImages s @ [(d, NULL)])"
    by (simp add: subscript_def)
  have first: "updateOpenCLImageData d
           (s\<lparr>mHostDataIsUpToDate := False,
              mCLImagesIsUpToDate := assign d True (clearFlags (mCLImagesIsUpToDate s)),
              mCLImagesAccess := assign d True (mCLImagesAccess s)\<rparr>)
         = (Inr (),
            s\<lparr>mHostDataIsUpToDate := False,
              mCLImagesIsUpToDate := assign d True (clearFlags (mCLImagesIsUpToDate s)),
              mCLImagesAccess := assign d True (mCLImagesAccess s)\<rparr>)"
    by (simp add: updateOpenCLImageData_def map_of_assign)
  have second: "\<exists>s'. getOpenCLImageAccess ACCESS_READ_WRITE d s
                   = (Inr (OpenCLImageAccess2D NULL d), s')
             \<and> allocated s' = allocated s
             \<and> mCLImages s' = mCLImages s @ [(d, NULL)]
             \<and> upToDateAt s' (OpenCLDevice d)"
    using assms(2) sub
    by (simp add: getOpenCLImageAccess_write_free upToDateAt_def assign_True_mem)
  from first second show ?thesis ..
qed

theorem first_touch_write_allocates_nothing_witness:
  "(1::nat) \<notin> fst ` set (mCLImages deviceImage)
   \<and> \<not> isAnyDataBeingAccessed deviceImage
   \<and> (\<exists>s'. getOpenCLImageAccess ACCESS_READ_WRITE 1 deviceImage
               = (Inr (OpenCLImageAccess2D NULL 1), s')
         \<and> allocated s' = allocated deviceImage
         \<and> mCLImages s' = mCLImages deviceImage @ [(1, NULL)]
         \<and> upToDateAt s' (OpenCLDevice 1))"
proof -
  have a: "(1::nat) \<notin> fst ` set (mCLImages deviceImage)"
    by (simp add: deviceImage_eq)
  have b: "\<not> isAnyDataBeingAccessed deviceImage"
    by (simp add: deviceImage_eq isAnyDataBeingAccessed_def)
  from a b first_touch_write_allocates_nothing [OF a b] show ?thesis by blast
qed

section \<open>Facts about the stage\<close>

lemma newFilter_eq:
  "newFilter =
       \<lparr> mInput = NULL, mTempOutput = NULL, mOutput = NULL, mDevice = OpenCLDevice 0,
         mStdDev = Finite 1, mMaskSize = 3, mIsModified = True, mRecreateMask = True,
         mMask = NULL, mCLMask = NULL, mKernel = NULL,
         mDimensionCLCodeCompiledFor = 0, mTypeCLCodeCompiledFor = TYPE_UINT8,
         strongRefs = [], initialized = [], outputPixels = [], trace = [] \<rparr>"
  by (simp add: newFilter_def GaussianSmoothingFilter_ctor_def exactPlatform_def)

lemma wiredFilter_eq:
  "wiredFilter = newFilter\<lparr>mInput := Ptr (StaticInput exampleImage),
      mTempOutput := Ptr 0, mOutput := Ptr 0, strongRefs := [1],
      trace := [AddParent, Retain (OpenCLDevice 0)]\<rparr>"
  by (simp add: wiredFilter_def newFilter_eq setInput_def emit_def releaseRef_def newObject_def)

lemma connectedFilter_eq:
  "connectedFilter = wiredFilter\<lparr>mTempOutput := NULL,
      trace := [AddParent, Retain (OpenCLDevice 0), SetParent 0]\<rparr>"
  by (simp add: connectedFilter_def wiredFilter_eq newFilter_eq getOutput_def emit_def)

lemma abandonedFilter_eq:
  "abandonedFilter = connectedFilter\<lparr>strongRefs := [0]\<rparr>"
  by (simp add: abandonedFilter_def connectedFilter_eq wiredFilter_eq newFilter_eq releaseRef_def)

lemma halfSizeOf_uint:
  "uint (halfSizeOf m) = (if m = 0 then 0 else (uint m - 1) div 2)"
proof (cases "m = 0")
  case True
  then show ?thesis by (simp add: halfSizeOf_def c_div_def)
next
  case False
  then have pos: "0 < uint m" by (simp add: word_neq_0_conv word_less_def)
  have lt: "uint m < 256" using uint_bounded [of m] by simp
  from pos have eq: "c_div (uint m - 1) 2 = (uint m - 1) div 2"
    by (cases "uint m = 1") (simp_all add: c_div_def sgn_if)
  have "0 \<le> (uint m - 1) div 2" "(uint m - 1) div 2 < 256"
    using pos lt by simp_all
  then have "uint (word_of_int ((uint m - 1) div 2) :: 8 word) = (uint m - 1) div 2"
    by (simp add: uint_word_of_int take_bit_int_eq_self)
  with eq False show ?thesis by (simp add: halfSizeOf_def)
qed

lemma fillMask_in_bounds:
  assumes "\<forall>(i, r) \<in> set cells. 0 \<le> i \<and> nat i < length array"
  shows "\<exists>array' acc'. fillMask pf stdDev cells array acc = Inr (array', acc')"
  using assms
proof (induction cells arbitrary: array acc)
  case Nil
  then show ?case by simp
next
  case (Cons c cells)
  obtain i r where c: "c = (i, r)" by (cases c)
  from Cons.prems c have here: "0 \<le> i" "nat i < length array" by simp_all
  let ?array = "array[nat i := Some (gaussian pf stdDev r)]"
  from Cons.prems have "\<forall>(j, q) \<in> set cells. 0 \<le> j \<and> nat j < length ?array" by simp
  from Cons.IH [OF this] c here show ?case by (simp add: Let_def)
qed

lemma cells2D_bounds:
  assumes h: "0 \<le> h" and m: "2 * h + 1 \<le> m"
  shows "\<forall>(i, r) \<in> set (cells2D h m). 0 \<le> i \<and> nat i < nat (m * m)"
proof -
  have one: "0 \<le> x + h + (y + h) * m \<and> x + h + (y + h) * m < m * m"
    if x: "- h \<le> x" "x \<le> h" and y: "- h \<le> y" "y \<le> h" for x y
  proof -
    have m0: "0 \<le> m" using h m by simp
    have ylo: "0 \<le> y + h" and yhi: "y + h \<le> m - 1" using y m by simp_all
    have "0 \<le> (y + h) * m" using ylo m0 by simp
    moreover have "(y + h) * m \<le> (m - 1) * m" using yhi m0 by (rule mult_right_mono)
    moreover have "(m - 1) * m = m * m - m" by (simp add: algebra_simps)
    moreover have "0 \<le> x + h" "x + h \<le> m - 1" using x m by simp_all
    ultimately show ?thesis by linarith
  qed
  have "0 \<le> i \<and> nat i < nat (m * m)" if "(i, r) \<in> set (cells2D h m)" for i r
  proof -
    from that obtain x y where "- h \<le> x" "x \<le> h" "- h \<le> y" "y \<le> h"
      and "i = x + h + (y + h) * m"
      by (auto simp: cells2D_def)
    with one [of x y] show ?thesis by simp
  qed
  then show ?thesis by blast
qed

lemma cells3D_bounds:
  assumes h: "0 \<le> h" and m: "2 * h + 1 \<le> m"
  shows "\<forall>(i, r) \<in> set (cells3D h m). 0 \<le> i \<and> nat i < nat (m * m * m)"
proof -
  have one: "0 \<le> x + h + (y + h) * m + (z + h) * m * m
             \<and> x + h + (y + h) * m + (z + h) * m * m < m * m * m"
    if x: "- h \<le> x" "x \<le> h" and y: "- h \<le> y" "y \<le> h" and z: "- h \<le> z" "z \<le> h"
    for x y z
  proof -
    have m0: "0 \<le> m" using h m by simp
    then have mm0: "0 \<le> m * m" by simp
    have ylo: "0 \<le> y + h" and yhi: "y + h \<le> m - 1" using y m by simp_all
    have zlo: "0 \<le> z + h" and zhi: "z + h \<le> m - 1" using z m by simp_all
    have "0 \<le> (y + h) * m" using ylo m0 by simp
    moreover have "(y + h) * m \<le> (m - 1) * m" using yhi m0 by (rule mult_right_mono)
    moreover have "(m - 1) * m = m * m - m" by (simp add: algebra_simps)
    moreover have "0 \<le> (z + h) * (m * m)" using zlo mm0 by simp
    moreover have "(z + h) * (m * m) \<le> (m - 1) * (m * m)"
      using zhi mm0 by (rule mult_right_mono)
    moreover have "(m - 1) * (m * m) = m * m * m - m * m" by (simp add: algebra_simps)
    moreover have "(z + h) * m * m = (z + h) * (m * m)" by simp
    moreover have "0 \<le> x + h" "x + h \<le> m - 1" using x m by simp_all
    ultimately show ?thesis by linarith
  qed
  have "0 \<le> i \<and> nat i < nat (m * m * m)" if "(i, r) \<in> set (cells3D h m)" for i r
  proof -
    from that obtain x y z where "- h \<le> x" "x \<le> h" "- h \<le> y" "y \<le> h"
      "- h \<le> z" "z \<le> h"
      and "i = x + h + (y + h) * m + (z + h) * m * m"
      by (auto simp: cells3D_def)
    with one [of x y z] show ?thesis by simp
  qed
  then show ?thesis by blast
qed

lemma halfSize_fits:
  assumes "m \<noteq> (0 :: 8 word)"
  shows "0 \<le> uint (halfSizeOf m)" "2 * uint (halfSizeOf m) + 1 \<le> uint m"
proof -
  from assms have pos: "0 < uint m" by (simp add: word_neq_0_conv word_less_def)
  show "0 \<le> uint (halfSizeOf m)" by simp
  from assms pos show "2 * uint (halfSizeOf m) + 1 \<le> uint m"
    by (simp add: halfSizeOf_uint)
qed

lemma computeMask_succeeds:
  assumes "\<forall>(i, r) \<in> set cells. 0 \<le> i \<and> nat i < n"
  shows "\<exists>array. computeMask pf stdDev cells n = Inr array"
proof -
  from assms have "\<forall>(i, r) \<in> set cells. 0 \<le> i \<and> nat i < length (replicate n (None :: cfloat option))"
    by simp
  from fillMask_in_bounds [OF this, of pf stdDev "Finite 0"]
  obtain array acc where "fillMask pf stdDev cells (replicate n None) (Finite 0) = Inr (array, acc)"
    by blast
  then show ?thesis by (simp add: computeMask_def)
qed

lemma maskComputations_emit:
  "maskComputations (emit es s) = maskComputations s + length (filter isMaskComputation es)"
  by (simp add: maskComputations_def emit_def)

lemma kernelCompilations_emit:
  "kernelCompilations (emit es s) = kernelCompilations s + length (filter isKernelCompilation es)"
  by (simp add: kernelCompilations_def emit_def)

lemma sameWiring_refl: "sameWiring s s"
  by (simp add: sameWiring_def)

lemma sameWiring_trans: "sameWiring s t \<Longrightarrow> sameWiring t u \<Longrightarrow> sameWiring s u"
  unfolding sameWiring_def by clarsimp


lemma createMask_flag_clear:
  "\<not> mRecreateMask s \<Longrightarrow> createMask pf inputImage s = (Inr (), s)"
  by (simp add: createMask_def)

lemma createMask_recreate:
  assumes flag: "mRecreateMask s" and size: "mMaskSize s \<noteq> 0"
    and dims: "mDimensions inputImage = 2 \<or> mDimensions inputImage = 3"
  shows "\<exists>s'. createMask pf inputImage s = (Inr (), s')
           \<and> \<not> mRecreateMask s' \<and> sameWiring s s'
           \<and> mDimensionCLCodeCompiledFor s' = mDimensionCLCodeCompiledFor s
           \<and> mTypeCLCodeCompiledFor s' = mTypeCLCodeCompiledFor s
           \<and> initialized s' = initialized s
           \<and> maskComputations s' = maskComputations s + 1
           \<and> kernelCompilations s' = kernelCompilations s"
proof -
  let ?m = "uint (mMaskSize s)" and ?h = "uint (halfSizeOf (mMaskSize s))"
  define cs where "cs = (if mDimensions inputImage = 2 then cells2D ?h ?m else cells3D ?h ?m)"
  define n where "n = (if mDimensions inputImage = 2 then nat (?m * ?m) else nat (?m * ?m * ?m))"
  have "\<forall>(i, r) \<in> set cs. 0 \<le> i \<and> nat i < n"
    using cells2D_bounds [OF halfSize_fits [OF size]] cells3D_bounds [OF halfSize_fits [OF size]]
    by (simp add: cs_def n_def)
  from computeMask_succeeds [OF this, of pf "mStdDev s"]
  obtain array where array: "computeMask pf (mStdDev s) cs n = Inr array" by blast
  have cells: "(if mDimensions inputImage = 2
                then Some (cells2D ?h ?m, nat (?m * ?m))
                else if mDimensions inputImage = 3
                then Some (cells3D ?h ?m, nat (?m * ?m * ?m))
                else None) = Some (cs, n)"
    using dims by (auto simp: cs_def n_def)
  let ?s1 = "(emit [NewFloatArray n] s)\<lparr>mMask := Ptr array\<rparr>"
  show ?thesis
  proof (cases "mDevice s")
    case Host
    have "createMask pf inputImage s = (Inr (), ?s1\<lparr>mRecreateMask := False\<rparr>)"
      using flag array Host unfolding createMask_def Let_def cells
      by (simp add: emit_def)
    then show ?thesis
      by (simp add: sameWiring_def emit_def maskComputations_def kernelCompilations_def)
  next
    case (OpenCLDevice device)
    let ?b = "(if mDimensions inputImage = 2 then nat (?m * ?m) else nat (?m * ?m * ?m))"
    have "createMask pf inputImage s =
            (Inr (), (emit [CreateBuffer device ?b] ?s1)
                       \<lparr>mCLMask := Ptr (take ?b array), mRecreateMask := False\<rparr>)"
      using flag array OpenCLDevice unfolding createMask_def Let_def cells
      by (simp add: emit_def)
    then show ?thesis
      by (simp add: sameWiring_def emit_def maskComputations_def kernelCompilations_def)
  qed
qed


lemma recompileOpenCLCode_effect:
  "sameWiring s (recompileOpenCLCode pf device inputImage s)
   \<and> mRecreateMask (recompileOpenCLCode pf device inputImage s) = mRecreateMask s
   \<and> compiledFor inputImage (recompileOpenCLCode pf device inputImage s)
   \<and> maskComputations (recompileOpenCLCode pf device inputImage s) = maskComputations s
   \<and> kernelCompilations (recompileOpenCLCode pf device inputImage s)
       = kernelCompilations s + (if compiledFor inputImage s then 0 else 1)"
  by (simp add: recompileOpenCLCode_def compiledFor_def sameWiring_def emit_def Let_def
      maskComputations_def kernelCompilations_def)

lemma emit_observed:
  "mRecreateMask (emit es s) = mRecreateMask s"
  "mDevice (emit es s) = mDevice s"
  "initialized (emit es s) = initialized s"
  "compiledFor inputImage (emit es s) = compiledFor inputImage s"
  "wouldCompile inputImage (emit es s) = wouldCompile inputImage s"
  "sameWiring t (emit es s) = sameWiring t s"
  by (simp_all add: emit_def compiledFor_def wouldCompile_def sameWiring_def)

lemma initializeOutput_created:
  "output \<in> set (initialized s)
     \<Longrightarrow> initializeOutput inputImage output s = (Inl AlreadyInitialized, s)"
  by (simp add: initializeOutput_def)

lemma initializeOutput_first:
  assumes "output \<notin> set (initialized s)"
  shows "\<exists>s'. initializeOutput inputImage output s = (Inr (), s')
           \<and> sameWiring s s'
           \<and> mRecreateMask s' = mRecreateMask s
           \<and> compiledFor inputImage s' = compiledFor inputImage s
           \<and> initialized s' = initialized s @ [output]
           \<and> maskComputations s' = maskComputations s
           \<and> kernelCompilations s' = kernelCompilations s"
  using assms
  by (cases "mDevice s")
    (simp_all add: initializeOutput_def Let_def emit_def sameWiring_def compiledFor_def
      maskComputations_def kernelCompilations_def)

lemma createMask_static:
  assumes size: "mMaskSize s \<noteq> 0"
    and dims: "mDimensions inputImage = 2 \<or> mDimensions inputImage = 3"
  shows "\<exists>s'. createMask pf inputImage s = (Inr (), s')
           \<and> \<not> mRecreateMask s' \<and> sameWiring s s'
           \<and> compiledFor inputImage s' = compiledFor inputImage s
           \<and> initialized s' = initialized s
           \<and> maskComputations s' = maskComputations s + (if mRecreateMask s then 1 else 0)
           \<and> kernelCompilations s' = kernelCompilations s"
proof (cases "mRecreateMask s")
  case True
  from createMask_recreate [OF True size dims, of pf] True show ?thesis
    by (auto simp: compiledFor_def)
next
  case False
  then show ?thesis by (simp add: createMask_flag_clear sameWiring_refl)
qed

lemma executeAlgorithmOnHost_observed:
  "sameWiring s (snd (executeAlgorithmOnHost pf inputImage output weights maskSize s))
   \<and> mRecreateMask (snd (executeAlgorithmOnHost pf inputImage output weights maskSize s))
       = mRecreateMask s
   \<and> initialized (snd (executeAlgorithmOnHost pf inputImage output weights maskSize s))
       = initialized s
   \<and> maskComputations (snd (executeAlgorithmOnHost pf inputImage output weights maskSize s))
       = maskComputations s
   \<and> kernelCompilations (snd (executeAlgorithmOnHost pf inputImage output weights maskSize s))
       = kernelCompilations s"
  by (simp add: executeAlgorithmOnHost_def Let_def emit_def sameWiring_def
      maskComputations_def kernelCompilations_def split: sum.splits pointer.splits)

lemma runAlgorithm_static:
  assumes flag: "\<not> mRecreateMask s"
  shows "sameWiring s (snd (runAlgorithm pf inputImage output s))
         \<and> \<not> mRecreateMask (snd (runAlgorithm pf inputImage output s))
         \<and> initialized (snd (runAlgorithm pf inputImage output s)) = initialized s
         \<and> maskComputations (snd (runAlgorithm pf inputImage output s)) = maskComputations s
         \<and> kernelCompilations (snd (runAlgorithm pf inputImage output s))
             = kernelCompilations s + (if wouldCompile inputImage s then 1 else 0)
         \<and> \<not> wouldCompile inputImage (snd (runAlgorithm pf inputImage output s))"
proof (cases "mDevice s")
  case Host
  let ?r = "executeAlgorithmOnHost pf inputImage output (mMask s) (mMaskSize s) s"
  from executeAlgorithmOnHost_observed [of s pf inputImage "output" "mMask s" "mMaskSize s"]
  have h: "sameWiring s (snd ?r)" "mRecreateMask (snd ?r) = mRecreateMask s"
    "initialized (snd ?r) = initialized s"
    "maskComputations (snd ?r) = maskComputations s"
    "kernelCompilations (snd ?r) = kernelCompilations s"
    by simp_all
  from h(1) Host have "mDevice (snd ?r) = Host" by (simp add: sameWiring_def)
  with Host flag h show ?thesis
    by (simp add: runAlgorithm_def wouldCompile_def)
next
  case (OpenCLDevice device)
  let ?c = "recompileOpenCLCode pf device inputImage s"
  from recompileOpenCLCode_effect [of s pf device inputImage]
  have c: "sameWiring s ?c" "mRecreateMask ?c = mRecreateMask s" "compiledFor inputImage ?c"
    "maskComputations ?c = maskComputations s"
    "kernelCompilations ?c = kernelCompilations s + (if compiledFor inputImage s then 0 else 1)"
    by simp_all
  have i: "initialized ?c = initialized s"
    by (simp add: recompileOpenCLCode_def Let_def emit_def)
  with OpenCLDevice flag c show ?thesis
    by (simp add: runAlgorithm_def executeOnDevice_def Let_def emit_observed
        maskComputations_emit kernelCompilations_emit wouldCompile_def)
qed

lemma pull_created:
  assumes inp: "mInput s = Ptr (StaticInput inputImage)"
    and resolved: "lock (mOutput s) s = Ptr target"
    and created: "target \<in> set (initialized s)"
  shows "execute pf s = (Inl AlreadyInitialized, s)" and "pull pf s = s"
proof -
  show "execute pf s = (Inl AlreadyInitialized, s)"
    using inp resolved created
    by (simp add: execute_def resolveInput_def resolveOutput_def initializeOutput_created)
  then show "pull pf s = s" by (simp add: pull_def)
qed

lemma pull_static:
  assumes inp: "mInput s = Ptr (StaticInput inputImage)"
    and resolved: "lock (mOutput s) s = Ptr target"
    and fresh: "target \<notin> set (initialized s)"
    and size: "mMaskSize s \<noteq> 0"
    and dims: "mDimensions inputImage = 2 \<or> mDimensions inputImage = 3"
  shows "sameWiring s (pull pf s) \<and> \<not> mRecreateMask (pull pf s)
         \<and> initialized (pull pf s) = initialized s @ [target]
         \<and> maskComputations (pull pf s)
             = maskComputations s + (if mRecreateMask s then 1 else 0)
         \<and> kernelCompilations (pull pf s)
             = kernelCompilations s + (if wouldCompile inputImage s then 1 else 0)
         \<and> \<not> wouldCompile inputImage (pull pf s)"
proof -
  from initializeOutput_first [OF fresh, of inputImage]
  obtain s2 where s2: "initializeOutput inputImage target s = (Inr (), s2)"
    "sameWiring s s2" "mRecreateMask s2 = mRecreateMask s"
    "compiledFor inputImage s2 = compiledFor inputImage s"
    "initialized s2 = initialized s @ [target]"
    "maskComputations s2 = maskComputations s"
    "kernelCompilations s2 = kernelCompilations s"
    by blast
  have size2: "mMaskSize s2 \<noteq> 0" using size s2(2) by (simp add: sameWiring_def)
  from createMask_static [OF size2 dims, of pf]
  obtain s3 where s3: "createMask pf inputImage s2 = (Inr (), s3)"
    "\<not> mRecreateMask s3" "sameWiring s2 s3"
    "compiledFor inputImage s3 = compiledFor inputImage s2"
    "initialized s3 = initialized s2"
    "maskComputations s3 = maskComputations s2 + (if mRecreateMask s2 then 1 else 0)"
    "kernelCompilations s3 = kernelCompilations s2"
    by blast
  have w3: "sameWiring s s3" using sameWiring_trans [OF s2(2) s3(3)] .
  then have dev3: "mDevice s3 = mDevice s" by (simp add: sameWiring_def)
  have would3: "wouldCompile inputImage s3 = wouldCompile inputImage s"
    using s3(4) s2(4) dev3 by (simp add: wouldCompile_def)
  let ?r = "runAlgorithm pf inputImage target s3"
  from runAlgorithm_static [OF s3(2), of pf inputImage target]
  have r: "sameWiring s3 (snd ?r)" "\<not> mRecreateMask (snd ?r)"
    "initialized (snd ?r) = initialized s3"
    "maskComputations (snd ?r) = maskComputations s3"
    "kernelCompilations (snd ?r)
       = kernelCompilations s3 + (if wouldCompile inputImage s3 then 1 else 0)"
    "\<not> wouldCompile inputImage (snd ?r)"
    by simp_all
  have pull: "pull pf s = snd ?r
              \<or> pull pf s = emit [UpdateModifiedTimestamp target]
                              (emit [Release (mDevice (snd ?r))] (snd ?r))"
    using inp resolved s2(1) s3(1)
    by (cases ?r)
      (auto simp: pull_def execute_def resolveInput_def resolveOutput_def
        split: sum.splits)
  from pull show ?thesis
  proof
    assume "pull pf s = snd ?r"
    with r w3 s2 s3 would3 show ?thesis
      using sameWiring_trans [OF w3 r(1)] by simp
  next
    assume "pull pf s = emit [UpdateModifiedTimestamp target]
                              (emit [Release (mDevice (snd ?r))] (snd ?r))"
    with r w3 s2 s3 would3 show ?thesis
      using sameWiring_trans [OF w3 r(1)]
      by (simp add: emit_observed maskComputations_emit kernelCompilations_emit)
  qed
qed





lemma exampleImage_dims: "mDimensions exampleImage = 2 \<or> mDimensions exampleImage = 3"
  by (simp add: exampleImage_def)

lemma connectedFilter_ready:
  "mInput connectedFilter = Ptr (StaticInput exampleImage)"
  "lock (mOutput connectedFilter) connectedFilter = Ptr 0"
  "0 \<notin> set (initialized connectedFilter)"
  "mMaskSize connectedFilter \<noteq> 0"
  "mRecreateMask connectedFilter"
  "outputNotCreated connectedFilter"
  "mDevice connectedFilter = OpenCLDevice 0"
  "wouldCompile exampleImage connectedFilter"
  "maskComputations connectedFilter = 0"
  "kernelCompilations connectedFilter = 0"
  "mTempOutput connectedFilter = NULL"
  "strongRefs connectedFilter = [1]"
  "initialized connectedFilter = []"
  by (simp_all add: connectedFilter_eq wiredFilter_eq newFilter_eq lock_def wouldCompile_def
      compiledFor_def exampleImage_def maskComputations_def kernelCompilations_def
      outputNotCreated_def)

lemma ranFilter_ready:
  "sameWiring connectedFilter ranFilter"
  "initialized ranFilter = [0]"
  "\<not> wouldCompile exampleImage ranFilter"
  "maskComputations ranFilter = 1"
  "kernelCompilations ranFilter = 1"
  using pull_static [OF connectedFilter_ready(1-4) exampleImage_dims, of exactPlatform]
    connectedFilter_ready
  by (simp_all add: ranFilter_def)

lemma ranFilter_fields:
  "mInput ranFilter = Ptr (StaticInput exampleImage)"
  "mTempOutput ranFilter = NULL"
  "mOutput ranFilter = Ptr 0"
  "strongRefs ranFilter = [1]"
  "mDevice ranFilter = OpenCLDevice 0"
  "compiledFor exampleImage ranFilter"
  using ranFilter_ready(1,3) connectedFilter_ready
  by (simp_all add: sameWiring_def wouldCompile_def connectedFilter_eq wiredFilter_eq)

lemma ran_stage_cannot_run_again:
  "execute exactPlatform ranFilter = (Inl AlreadyInitialized, ranFilter)"
proof -
  have "lock (mOutput ranFilter) ranFilter = Ptr 0"
    by (simp add: lock_def ranFilter_fields)
  moreover have "0 \<in> set (initialized ranFilter)" by (simp add: ranFilter_ready)
  ultimately show ?thesis
    using pull_created(1) [OF ranFilter_fields(1)] by blast
qed




text \<open>
  The host loops on small images: a mask of size 1 visits every pixel of a 2 by 2 image,
  a mask of size 3 visits the one interior pixel of a 3 by 3 image, and on an image of
  height 0 and width 3 the bound \<^verbatim>\<open>height-halfSize\<close> wraps around, so the loops start
  and read beyond the input.
\<close>

lemma pixels2D_whole_image: 
  "pixels2D 0 1 2 2 = [(0, [(0, 0)]), (1, [(0, 1)]), (2, [(0, 2)]), (3, [(0, 3)])]"
  by code_simp

lemma pixels2D_interior:
  "pixels2D 1 3 3 3
     = [(4, [(0, 0), (1, 1), (2, 2), (3, 3), (4, 4), (5, 5), (6, 6), (7, 7), (8, 8)])]"
  by code_simp

lemma range32_Cons:
  "unat lower < unat upper
     \<Longrightarrow> range32 lower upper = lower # map of_nat [Suc (unat lower) ..< unat upper]"
  by (simp add: range32_def upt_conv_Cons)

lemma range32_wrapped: "\<exists>rest. range32 1 (- 1) = 1 # rest"
proof -
  have "unat (1 :: 32 word) < unat (- 1 :: 32 word)"
    by (simp add: unsigned_minus_1_eq_mask mask_eq_exp_minus_1)
  from range32_Cons [OF this] show ?thesis ..
qed

lemma range32_two: "range32 1 2 = [1]"
  by code_simp

lemma taps2D_centre:
  "taps2D 1 3 3 1 1 = [(0, 0), (1, 1), (2, 2), (3, 3), (4, 4), (5, 5), (6, 6), (7, 7), (8, 8)]"
  by code_simp

lemma host_loop_wraps:
  assumes "mWidth inputImage = 3" and "mHeight inputImage = 0"
    and "mComponents inputImage = 1" and "mDimensions inputImage = 2"
    and "pixels inputImage = []"
  shows "fst (executeAlgorithmOnHost pf inputImage output (Ptr weights) 3 s) = Inl OutOfBounds"
proof -
  have h: "uint (halfSizeOf 3) = 1" by (simp add: halfSizeOf_uint)
  obtain ys where ys: "range32 1 (- 1) = 1 # ys" using range32_wrapped by blast
  have "\<exists>rest. pixels2D 1 3 3 0 = (4, taps2D 1 3 3 1 1) # rest"
    by (simp add: pixels2D_def ys range32_two)
  then obtain rest where "pixels2D 1 3 3 0 = (4, taps2D 1 3 3 1 1) # rest" by blast
  then show ?thesis
    using assms h
    by (simp add: executeAlgorithmOnHost_def Let_def taps2D_centre)
qed

text \<open>
  Claim C5. When the weak reference to the output resolves to nothing, \<^verbatim>\<open>execute\<close>
  leaves the stage and its surroundings exactly as they were: no event is recorded, so no
  mask is computed, no kernel compiled, nothing dispatched, no timestamp updated and
  the input not released. With an input bound it returns normally.
\<close>

theorem execute_skips_unreferenced_output:
  assumes "lock (mOutput s) s = NULL"
  shows "snd (execute pf s) = s
         \<and> (mInput s \<noteq> NULL \<longrightarrow> execute pf s = (Inr (), s))
         \<and> maskComputations (snd (execute pf s)) = maskComputations s
         \<and> kernelCompilations (snd (execute pf s)) = kernelCompilations s
         \<and> trace (snd (execute pf s)) = trace s"
proof -
  have "snd (execute pf s) = s"
    using assms by (simp add: execute_def split: pointer.splits)
  moreover have "mInput s \<noteq> NULL \<longrightarrow> execute pf s = (Inr (), s)"
    using assms by (simp add: execute_def split: pointer.splits)
  ultimately show ?thesis by simp
qed

theorem execute_skips_unreferenced_output_witness:
  "lock (mOutput abandonedFilter) abandonedFilter = NULL
   \<and> execute exactPlatform abandonedFilter = (Inr (), abandonedFilter)
   \<and> trace (snd (execute exactPlatform abandonedFilter))
       = [AddParent, Retain (OpenCLDevice 0), SetParent 0]"
proof -
  have a: "lock (mOutput abandonedFilter) abandonedFilter = NULL"
    by (simp add: abandonedFilter_eq connectedFilter_eq wiredFilter_eq newFilter_eq lock_def)
  have b: "mInput abandonedFilter \<noteq> NULL"
    by (simp add: abandonedFilter_eq connectedFilter_eq wiredFilter_eq newFilter_eq)
  have c: "trace abandonedFilter = [AddParent, Retain (OpenCLDevice 0), SetParent 0]"
    by (simp add: abandonedFilter_eq connectedFilter_eq wiredFilter_eq newFilter_eq)
  from a b c execute_skips_unreferenced_output [OF a, of exactPlatform]
  show ?thesis by simp
qed




text \<open>
  Claim C7, as amended. \<^verbatim>\<open>getOutput\<close> fails when no input is bound. Otherwise, while
  the stage still holds the output placeholder, the call hands that strong reference to
  the caller and leaves the stage with the weak reference only, the count of the object
  unchanged; every later call returns the weak reference resolved, which is a null
  pointer, returned without any failure, when nobody retains the output.
\<close>

theorem getOutput_hands_over_then_resolves:
  "(mInput s = NULL \<longrightarrow> getOutput s = (Inl NotWired, s))
   \<and> (mInput s \<noteq> NULL \<longrightarrow>
        (\<forall>p. mTempOutput s = Ptr p \<longrightarrow>
           (\<exists>s'. getOutput s = (Inr (Ptr p), s')
              \<and> mTempOutput s' = NULL \<and> mOutput s' = mOutput s
              \<and> strongRefs s' = strongRefs s))
        \<and> (mTempOutput s = NULL \<longrightarrow>
             getOutput s = (Inr (lock (mOutput s) s), retainRef (lock (mOutput s) s) s)
             \<and> (lock (mOutput s) s = NULL \<longrightarrow> getOutput s = (Inr NULL, s))))"
  by (auto simp: getOutput_def emit_def retainRef_def split: pointer.splits)

theorem getOutput_hands_over_then_resolves_witness:
  "getOutput newFilter = (Inl NotWired, newFilter)
   \<and> mOutput wiredFilter = Ptr 0
   \<and> getOutput wiredFilter = (Inr (Ptr 0), connectedFilter)
   \<and> mTempOutput connectedFilter = NULL
   \<and> strongRefs connectedFilter = [1]
   \<and> getOutput connectedFilter = (Inr (Ptr 0), connectedFilter\<lparr>strongRefs := [2]\<rparr>)
   \<and> getOutput abandonedFilter = (Inr NULL, abandonedFilter)"
proof -
  have a: "mInput newFilter = NULL" by (simp add: newFilter_eq)
  have b: "mInput wiredFilter \<noteq> NULL" "mTempOutput wiredFilter = Ptr 0"
    "mOutput wiredFilter = Ptr 0"
    by (simp_all add: wiredFilter_eq)
  have c: "mInput connectedFilter \<noteq> NULL" "mTempOutput connectedFilter = NULL"
    "lock (mOutput connectedFilter) connectedFilter = Ptr 0"
    "strongRefs connectedFilter = [1]"
    "retainRef (Ptr 0) connectedFilter = connectedFilter\<lparr>strongRefs := [2]\<rparr>"
    by (simp_all add: connectedFilter_eq wiredFilter_eq lock_def retainRef_def)
  have d: "mInput abandonedFilter \<noteq> NULL" "mTempOutput abandonedFilter = NULL"
    "lock (mOutput abandonedFilter) abandonedFilter = NULL"
    by (simp_all add: abandonedFilter_eq connectedFilter_eq wiredFilter_eq lock_def)
  have e: "snd (getOutput wiredFilter) = connectedFilter"
    by (simp add: connectedFilter_def)
  from a b c d e
    getOutput_hands_over_then_resolves [of newFilter]
    getOutput_hands_over_then_resolves [of wiredFilter]
    getOutput_hands_over_then_resolves [of connectedFilter]
    getOutput_hands_over_then_resolves [of abandonedFilter]
  show ?thesis by auto
qed

text \<open>
  The claim as stated fails on the stage whose caller has let go of the output: the call
  returns a null pointer, not a failure.
\<close>

theorem getOutput_expired_counterexample:
  "mInput abandonedFilter \<noteq> NULL
   \<and> mTempOutput abandonedFilter = NULL
   \<and> mOutput abandonedFilter = Ptr 0
   \<and> strongRefs abandonedFilter ! 0 = 0
   \<and> getOutput abandonedFilter = (Inr NULL, abandonedFilter)"
  by (simp add: abandonedFilter_eq connectedFilter_eq wiredFilter_eq newFilter_eq
      getOutput_def lock_def retainRef_def)

text \<open>
  Claim C8. Setting the mask size to an even value fails, setting the standard deviation
  to a value less than or equal to zero fails, both with a failure that is an
  InvalidParameter of the specification, and a setter that fails leaves every member of
  the stage, its flags and caches among them, as it was.
\<close>

theorem setters_reject_invalid:
  "(even (uint maskSize) \<longrightarrow>
      (\<exists>e. setMaskSize maskSize s = (Inl e, s) \<and> InvalidParameter e))
   \<and> (lessEqZero stdDev \<longrightarrow>
      (\<exists>e. setStandardDeviation stdDev s = (Inl e, s) \<and> InvalidParameter e))
   \<and> (r \<le> 0 \<longrightarrow> lessEqZero (Finite r))
   \<and> (\<forall>e s'. setMaskSize maskSize s = (Inl e, s') \<longrightarrow> s' = s \<and> InvalidParameter e)
   \<and> (\<forall>e s'. setStandardDeviation stdDev s = (Inl e, s') \<longrightarrow> s' = s \<and> InvalidParameter e)"
proof (intro conjI impI allI)
  assume "even (uint maskSize)"
  then have "uint maskSize mod 2 \<noteq> 1" by presburger
  then have "setMaskSize maskSize s = (Inl MaskSizeNotOdd, s)"
    by (simp add: setMaskSize_def)
  moreover have "InvalidParameter MaskSizeNotOdd" by (simp add: InvalidParameter_def)
  ultimately show "\<exists>e. setMaskSize maskSize s = (Inl e, s) \<and> InvalidParameter e" by blast
next
  assume "lessEqZero stdDev"
  then have "setStandardDeviation stdDev s = (Inl StandardDeviationNotPositive, s)"
    by (simp add: setStandardDeviation_def)
  moreover have "InvalidParameter StandardDeviationNotPositive"
    by (simp add: InvalidParameter_def)
  ultimately show "\<exists>e. setStandardDeviation stdDev s = (Inl e, s) \<and> InvalidParameter e"
    by blast
next
  assume "r \<le> 0"
  then show "lessEqZero (Finite r)" by simp
next
  fix e s'
  assume "setMaskSize maskSize s = (Inl e, s')"
  then show "s' = s" by (simp add: setMaskSize_def split: if_splits)
next
  fix e s'
  assume "setMaskSize maskSize s = (Inl e, s')"
  then show "InvalidParameter e"
    by (auto simp: setMaskSize_def InvalidParameter_def split: if_splits)
next
  fix e s'
  assume "setStandardDeviation stdDev s = (Inl e, s')"
  then show "s' = s" by (simp add: setStandardDeviation_def split: if_splits)
next
  fix e s'
  assume "setStandardDeviation stdDev s = (Inl e, s')"
  then show "InvalidParameter e"
    by (auto simp: setStandardDeviation_def InvalidParameter_def split: if_splits)
qed

theorem setters_reject_invalid_witness:
  "even (uint (4 :: 8 word)) \<and> lessEqZero (Finite 0)
   \<and> (\<exists>e. setMaskSize 4 wiredFilter = (Inl e, wiredFilter) \<and> InvalidParameter e)
   \<and> (\<exists>e. setStandardDeviation (Finite 0) wiredFilter = (Inl e, wiredFilter)
         \<and> InvalidParameter e)"
proof -
  have a: "even (uint (4 :: 8 word))" by simp
  have b: "lessEqZero (Finite 0)" by simp
  from a b setters_reject_invalid [of 4 wiredFilter "Finite 0" 0] show ?thesis by blast
qed

end
